theory Spec2Isabelle
  imports Main
begin

section \<open>The plone.app.blocks transform pipeline\<close>

text \<open>
  A shallow embedding of \<^verbatim>\<open>src/plone/app/blocks/transform.py\<close>: the five transforms
  \<^verbatim>\<open>DisableParsing\<close>, \<^verbatim>\<open>ParseXML\<close>, \<^verbatim>\<open>MergePanels\<close>, \<^verbatim>\<open>IncludeTiles\<close> and
  \<^verbatim>\<open>ESIRender\<close>, each with its three entry points \<^verbatim>\<open>transformBytes\<close>,
  \<^verbatim>\<open>transformUnicode\<close> and \<^verbatim>\<open>transformIterable\<close>.

  A Python \<^verbatim>\<open>bytes\<close> value is a list of 8-bit characters, a Python \<^verbatim>\<open>str\<close> body is
  a list of code points. Header names and header values are ASCII text and are written
  as HOL strings. A method returns \<open>Inl e\<close> when exception \<open>e\<close> leaves it and
  \<open>Inr (r, s)\<close> when it returns: \<open>r = None\<close> is Python's \<^verbatim>\<open>return\<close> with no value
  (the transform chain then keeps the current result), and \<open>s\<close> is the request after
  the call.
\<close>

subsection \<open>Values\<close>

type_synonym bytes = string
type_synonym unicode = "nat list"

datatype exn =
    AttributeError
  | TypeError
  | ParseError
  | UnicodeEncodeError
  | LookupError
  | OtherError

text \<open>\<^verbatim>\<open>html.tostring\<close> and \<^verbatim>\<open>etree.tostring\<close>, the two serializers a result can carry.\<close>

datatype strategy = html_tostring | etree_tostring

datatype node = Element string "(string \<times> string) list" "node list" | Chars string

text \<open>An lxml tree: \<open>doctype t\<close> is \<^verbatim>\<open>t.docinfo.doctype\<close>, the empty string when the
  document declares none.\<close>

record etree =
  doctype :: string
  root :: node

text \<open>\<^verbatim>\<open>repoze.xmliter.serializer.XMLSerializer\<close>: a tree and how to write it out.\<close>

record XMLSerializer =
  tree :: etree
  serializer :: strategy
  pretty_print :: bool

text \<open>What an iterable result yields: byte chunks, text chunks, or something else
  (iterating over a \<^verbatim>\<open>bytes\<close> object yields integers).\<close>

datatype item = IBytes bytes | IText unicode | IInt int

text \<open>The value a transform is handed and the value it returns.\<close>

datatype result =
    RBytes bytes
  | RText unicode
  | RIter "item list"
  | RSerializer XMLSerializer

subsection \<open>The request\<close>

text \<open>
  \<open>flags\<close> is the request's own mapping (\<^verbatim>\<open>request.get\<close>, \<^verbatim>\<open>request.set\<close>,
  \<^verbatim>\<open>request[key] = v\<close>), \<open>headers\<close> the inbound headers (\<^verbatim>\<open>request.getHeader\<close>),
  \<open>response_headers\<close> the headers of \<^verbatim>\<open>request.response\<close>, and \<open>log\<close> what the
  module's logger has been given by \<^verbatim>\<open>logger.error\<close>.
\<close>

record request =
  flags :: "string \<rightharpoonup> bool"
  headers :: "string \<rightharpoonup> string"
  response_headers :: "string \<rightharpoonup> string"
  log :: "exn list"

definition request_get :: "request \<Rightarrow> string \<Rightarrow> bool \<Rightarrow> bool" where
  "request_get s k d = (case flags s k of None \<Rightarrow> d | Some v \<Rightarrow> v)"

definition request_set :: "request \<Rightarrow> string \<Rightarrow> bool \<Rightarrow> request" where
  "request_set s k v = s\<lparr>flags := (flags s)(k \<mapsto> v)\<rparr>"

definition getHeader :: "request \<Rightarrow> string \<Rightarrow> string \<Rightarrow> string" where
  "getHeader s k d = (case headers s k of None \<Rightarrow> d | Some v \<Rightarrow> v)"

definition setHeader :: "request \<Rightarrow> string \<Rightarrow> string \<Rightarrow> request" where
  "setHeader s k v = s\<lparr>response_headers := (response_headers s)(k \<mapsto> v)\<rparr>"

definition logger_error :: "request \<Rightarrow> exn \<Rightarrow> request" where
  "logger_error s e = s\<lparr>log := log s @ [e]\<rparr>"

subsection \<open>Collaborators\<close>

text \<open>
  The functions the module imports from other packages are parameters of the model.
  Each may raise. \<open>panel_merge\<close> is \<^verbatim>\<open>panel.merge\<close> (\<open>None\<close>: no layout applies),
  \<open>py_str\<close> is the builtin \<^verbatim>\<open>str\<close>, \<open>xml_iter\<close> is iteration over an
  \<^verbatim>\<open>XMLSerializer\<close>, \<open>lookup_codec\<close> finds the codec of an encoding name (\<open>None\<close>:
  unknown encoding), a codec giving the bytes of one code point or \<open>None\<close> when the
  encoding cannot represent it. \<open>ParseXML_pretty_print\<close> is the class attribute
  \<^verbatim>\<open>ParseXML.pretty_print\<close>.
\<close>

record env =
  ESI_HEADER :: string
  ParseXML_pretty_print :: bool
  getHTMLSerializer :: "bytes list \<Rightarrow> bool \<Rightarrow> string \<Rightarrow> exn + XMLSerializer"
  panel_merge :: "request \<Rightarrow> etree \<Rightarrow> exn + etree option"
  renderTiles :: "request \<Rightarrow> etree \<Rightarrow> exn + etree"
  substituteESILinks :: "result \<Rightarrow> exn + result"
  py_str :: "result \<Rightarrow> exn + unicode"
  xml_iter :: "XMLSerializer \<Rightarrow> exn + bytes list"
  lookup_codec :: "string \<Rightarrow> (nat \<Rightarrow> bytes option) option"

subsection \<open>String operations\<close>

fun startswith :: "'a list \<Rightarrow> 'a list \<Rightarrow> bool" where
  "startswith s [] = True"
| "startswith [] (p # ps) = False"
| "startswith (x # xs) (p # ps) = (x = p \<and> startswith xs ps)"

text \<open>\<^verbatim>\<open>p in s\<close> on strings and bytes: \<open>p\<close> occurs in \<open>s\<close> as a contiguous run.\<close>

fun contains :: "'a list \<Rightarrow> 'a list \<Rightarrow> bool" where
  "contains [] p = (p = [])"
| "contains (x # xs) p = (startswith (x # xs) p \<or> contains xs p)"

text \<open>
  \<^verbatim>\<open>re.sub(p, r, s)\<close> for a pattern \<open>p\<close> without metacharacters and a replacement
  \<open>r\<close> without backslashes: scan from the left, replace each match, resume after it.
\<close>

fun re_sub :: "'a list \<Rightarrow> 'a list \<Rightarrow> 'a list \<Rightarrow> 'a list" where
  "re_sub p r [] = []"
| "re_sub p r (x # xs) =
     (if p \<noteq> [] \<and> startswith (x # xs) p
      then r @ re_sub p r (drop (length p - 1) xs)
      else x # re_sub p r xs)"

text \<open>\<^verbatim>\<open>str.lower\<close> on ASCII text: the 26 capital letters are mapped, every other
  character is kept.\<close>

definition lower_char :: "char \<Rightarrow> char" where
  "lower_char c =
     (case map_of (zip ''ABCDEFGHIJKLMNOPQRSTUVWXYZ'' ''abcdefghijklmnopqrstuvwxyz'') c of
        None \<Rightarrow> c
      | Some d \<Rightarrow> d)"

definition lower :: "string \<Rightarrow> string" where
  "lower s = map lower_char s"

text \<open>\<^verbatim>\<open>sep.join(parts)\<close>, and the characters a \<^verbatim>\<open>str\<close> yields when iterated.\<close>

fun join :: "'a list \<Rightarrow> 'a list list \<Rightarrow> 'a list" where
  "join sep [] = []"
| "join sep [p] = p"
| "join sep (p # q # ps) = p @ sep @ join sep (q # ps)"

definition str_iter :: "'a list \<Rightarrow> 'a list list" where
  "str_iter s = map (\<lambda>c. [c]) s"

subsection \<open>Encoding text\<close>

definition is_surrogate :: "nat \<Rightarrow> bool" where
  "is_surrogate c = (55296 \<le> c \<and> c \<le> 57343)"

definition utf8_char :: "nat \<Rightarrow> bytes" where
  "utf8_char c =
     (if c < 128 then [char_of c]
      else if c < 2048 then [char_of (192 + c div 64), char_of (128 + c mod 64)]
      else if c < 65536 then
        [char_of (224 + c div 4096), char_of (128 + (c div 64) mod 64),
         char_of (128 + c mod 64)]
      else
        [char_of (240 + c div 262144), char_of (128 + (c div 4096) mod 64),
         char_of (128 + (c div 64) mod 64), char_of (128 + c mod 64)])"

text \<open>\<^verbatim>\<open>value.encode("utf-8")\<close>: strict, a lone surrogate raises.\<close>

definition encode_utf8 :: "unicode \<Rightarrow> exn + bytes" where
  "encode_utf8 t =
     (if list_ex is_surrogate t then Inl UnicodeEncodeError
      else Inr (concat (map utf8_char t)))"

text \<open>\<^verbatim>\<open>safe_bytes\<close> of \<^verbatim>\<open>Products.CMFPlone.utils\<close>: text is encoded as UTF-8, anything
  else is returned as it is.\<close>

fun safe_bytes :: "item \<Rightarrow> exn + item" where
  "safe_bytes (IText t) =
     (case encode_utf8 t of Inl e \<Rightarrow> Inl e | Inr b \<Rightarrow> Inr (IBytes b))"
| "safe_bytes v = Inr v"

text \<open>\<^verbatim>\<open>t.encode(encoding, "strict")\<close> and \<^verbatim>\<open>t.encode(encoding, "ignore")\<close> for a
  codec \<open>c\<close>.\<close>

definition encode_strict :: "(nat \<Rightarrow> bytes option) \<Rightarrow> unicode \<Rightarrow> exn + bytes" where
  "encode_strict c t =
     (if list_ex (\<lambda>x. c x = None) t then Inl UnicodeEncodeError
      else Inr (concat (map (\<lambda>x. the (c x)) t)))"

definition encode_ignore :: "(nat \<Rightarrow> bytes option) \<Rightarrow> unicode \<Rightarrow> bytes" where
  "encode_ignore c t = concat (map (\<lambda>x. case c x of None \<Rightarrow> [] | Some b \<Rightarrow> b) t)"

definition encode :: "env \<Rightarrow> unicode \<Rightarrow> string \<Rightarrow> string \<Rightarrow> exn + bytes" where
  "encode E t encoding errors =
     (case lookup_codec E encoding of
        None \<Rightarrow> Inl LookupError
      | Some c \<Rightarrow>
          if errors = ''ignore'' then Inr (encode_ignore c t) else encode_strict c t)"

subsection \<open>DisableParsing\<close>

definition DisableParsing_transformBytes ::
    "env \<Rightarrow> request \<Rightarrow> bytes \<Rightarrow> string \<Rightarrow> exn + (result option \<times> request)" where
  "DisableParsing_transformBytes E s result encoding =
     Inr (None, request_set s ''plone.app.blocks.disabled'' True)"

definition DisableParsing_transformUnicode ::
    "env \<Rightarrow> request \<Rightarrow> unicode \<Rightarrow> string \<Rightarrow> exn + (result option \<times> request)" where
  "DisableParsing_transformUnicode E s result encoding =
     Inr (None, request_set s ''plone.app.blocks.disabled'' True)"

definition DisableParsing_transformIterable ::
    "env \<Rightarrow> request \<Rightarrow> result \<Rightarrow> string \<Rightarrow> exn + (result option \<times> request)" where
  "DisableParsing_transformIterable E s result encoding =
     Inr (None, request_set s ''plone.app.blocks.disabled'' True)"

subsection \<open>ParseXML\<close>

text \<open>Python's truth value of a chunk (\<^verbatim>\<open>if item\<close>).\<close>

fun truthy :: "item \<Rightarrow> bool" where
  "truthy (IBytes b) = (b \<noteq> [])"
| "truthy (IText t) = (t \<noteq> [])"
| "truthy (IInt n) = (n \<noteq> 0)"

text \<open>\<^verbatim>\<open>for item in result\<close>.\<close>

fun py_iter :: "env \<Rightarrow> result \<Rightarrow> exn + item list" where
  "py_iter E (RIter xs) = Inr xs"
| "py_iter E (RBytes b) = Inr (map (\<lambda>c. IInt (of_char c)) b)"
| "py_iter E (RText t) = Inr (map (\<lambda>c. IText [c]) t)"
| "py_iter E (RSerializer x) =
     (case xml_iter E x of Inl e \<Rightarrow> Inl e | Inr bs \<Rightarrow> Inr (map IBytes bs))"

text \<open>\<^verbatim>\<open>re.sub\<close> with a bytes pattern accepts bytes only.\<close>

fun re_sub_bytes :: "bytes \<Rightarrow> bytes \<Rightarrow> item \<Rightarrow> exn + bytes" where
  "re_sub_bytes p r (IBytes b) = Inr (re_sub p r b)"
| "re_sub_bytes p r v = Inl TypeError"

definition CR :: bytes where
  "CR = ''&#13;''"

definition LF :: bytes where
  "LF = [CHR 0x0A]"

definition CDATA :: bytes where
  "CDATA = ''<![CDATA[''"

text \<open>The two nested substitutions of lines 93 to 97 on a chunk of bytes.\<close>

definition normalize :: "bytes \<Rightarrow> bytes" where
  "normalize b = re_sub CR LF (re_sub (CR @ LF) LF b)"

definition normalize_item :: "item \<Rightarrow> exn + bytes" where
  "normalize_item item =
     (case safe_bytes item of
        Inl e \<Rightarrow> Inl e
      | Inr v \<Rightarrow>
          (case re_sub_bytes (CR @ LF) LF v of
             Inl e \<Rightarrow> Inl e
           | Inr b \<Rightarrow> re_sub_bytes CR LF (IBytes b)))"

text \<open>The list comprehension: chunks in order, falsy ones skipped, the first exception
  ends it.\<close>

fun normalize_items :: "item list \<Rightarrow> exn + bytes list" where
  "normalize_items [] = Inr []"
| "normalize_items (item # rest) =
     (if truthy item then
        (case normalize_item item of
           Inl e \<Rightarrow> Inl e
         | Inr b \<Rightarrow>
             (case normalize_items rest of Inl e \<Rightarrow> Inl e | Inr bs \<Rightarrow> Inr (b # bs)))
      else normalize_items rest)"

text \<open>The body of the \<^verbatim>\<open>try\<close> block up to the serializer fix.\<close>

definition parse_body :: "env \<Rightarrow> result \<Rightarrow> string \<Rightarrow> exn + XMLSerializer" where
  "parse_body E result encoding =
     (case py_iter E result of
        Inl e \<Rightarrow> Inl e
      | Inr items \<Rightarrow>
          (case normalize_items items of
             Inl e \<Rightarrow> Inl e
           | Inr iterable \<Rightarrow>
               (case getHTMLSerializer E iterable (ParseXML_pretty_print E) encoding of
                  Inl e \<Rightarrow> Inl e
                | Inr r \<Rightarrow>
                    Inr (if list_ex (\<lambda>item. contains item CDATA) iterable
                         then r\<lparr>serializer := html_tostring\<rparr> else r))))"

text \<open>\<^verbatim>\<open>except (AttributeError, TypeError, etree.ParseError)\<close>.\<close>

fun caught :: "exn \<Rightarrow> bool" where
  "caught AttributeError = True"
| "caught TypeError = True"
| "caught ParseError = True"
| "caught e = False"

definition ParseXML_transformIterable ::
    "env \<Rightarrow> request \<Rightarrow> result \<Rightarrow> string \<Rightarrow> exn + (result option \<times> request)" where
  "ParseXML_transformIterable E s result encoding =
     (if request_get s ''plone.app.blocks.disabled'' False then Inr (None, s)
      else
        (case response_headers s ''Content-Type'' of
           None \<Rightarrow> Inr (None, s)
         | Some content_type \<Rightarrow>
             if \<not> startswith content_type ''text/html'' then Inr (None, s)
             else
               let contentEncoding = response_headers s ''Content-Encoding''
               in if (case contentEncoding of
                        None \<Rightarrow> False
                      | Some v \<Rightarrow> v \<noteq> [] \<and> v \<in> set [''zip'', ''deflate'', ''compress''])
                  then Inr (None, s)
                  else
                    (case parse_body E result encoding of
                       Inr r \<Rightarrow>
                         Inr (Some (RSerializer r),
                              request_set s ''plone.app.blocks.enabled'' True)
                     | Inl e \<Rightarrow>
                         if caught e then Inr (None, logger_error s e) else Inl e)))"

definition ParseXML_transformBytes ::
    "env \<Rightarrow> request \<Rightarrow> bytes \<Rightarrow> string \<Rightarrow> exn + (result option \<times> request)" where
  "ParseXML_transformBytes E s result encoding =
     ParseXML_transformIterable E s (RIter [IBytes result]) encoding"

definition ParseXML_transformUnicode ::
    "env \<Rightarrow> request \<Rightarrow> unicode \<Rightarrow> string \<Rightarrow> exn + (result option \<times> request)" where
  "ParseXML_transformUnicode E s result encoding =
     ParseXML_transformIterable E s (RIter [IText result]) encoding"

subsection \<open>MergePanels\<close>

definition MergePanels_transformBytes ::
    "env \<Rightarrow> request \<Rightarrow> bytes \<Rightarrow> string \<Rightarrow> exn + (result option \<times> request)" where
  "MergePanels_transformBytes E s result encoding = Inr (None, s)"

definition MergePanels_transformUnicode ::
    "env \<Rightarrow> request \<Rightarrow> unicode \<Rightarrow> string \<Rightarrow> exn + (result option \<times> request)" where
  "MergePanels_transformUnicode E s result encoding = Inr (None, s)"

text \<open>Only the \<open>RSerializer\<close> variant is an instance of \<^verbatim>\<open>XMLSerializer\<close>. The
  serializer object is updated in place and returned; the model returns the updated
  record.\<close>

fun MergePanels_transformIterable ::
    "env \<Rightarrow> request \<Rightarrow> result \<Rightarrow> string \<Rightarrow> exn + (result option \<times> request)" where
  "MergePanels_transformIterable E s (RSerializer result) encoding =
     (if \<not> request_get s ''plone.app.blocks.enabled'' False then Inr (None, s)
      else
        (case panel_merge E s (tree result) of
           Inl e \<Rightarrow> Inl e
         | Inr None \<Rightarrow> Inr (None, s)
         | Inr (Some t) \<Rightarrow>
             let s' = request_set s ''plone.app.blocks.merged'' True;
                 result' = result\<lparr>tree := t\<rparr>;
                 result'' =
                   (if doctype (tree result') \<noteq> [] \<and>
                       \<not> contains (doctype (tree result')) ''XHTML''
                    then result'\<lparr>serializer := html_tostring\<rparr> else result')
             in Inr (Some (RSerializer result''), s')))"
| "MergePanels_transformIterable E s result encoding = Inr (None, s)"

subsection \<open>IncludeTiles\<close>

definition IncludeTiles_transformBytes ::
    "env \<Rightarrow> request \<Rightarrow> bytes \<Rightarrow> string \<Rightarrow> exn + (result option \<times> request)" where
  "IncludeTiles_transformBytes E s result encoding = Inr (None, s)"

definition IncludeTiles_transformUnicode ::
    "env \<Rightarrow> request \<Rightarrow> unicode \<Rightarrow> string \<Rightarrow> exn + (result option \<times> request)" where
  "IncludeTiles_transformUnicode E s result encoding = Inr (None, s)"

fun IncludeTiles_transformIterable ::
    "env \<Rightarrow> request \<Rightarrow> result \<Rightarrow> string \<Rightarrow> exn + (result option \<times> request)" where
  "IncludeTiles_transformIterable E s (RSerializer result) encoding =
     (if \<not> request_get s ''plone.app.blocks.enabled'' False then Inr (None, s)
      else
        (case renderTiles E s (tree result) of
           Inl e \<Rightarrow> Inl e
         | Inr t \<Rightarrow> Inr (Some (RSerializer (result\<lparr>tree := t\<rparr>)), s)))"
| "IncludeTiles_transformIterable E s result encoding = Inr (None, s)"

subsection \<open>ESIRender\<close>

text \<open>\<^verbatim>\<open>self.request.getHeader(ESI_HEADER, "false").lower() != "true"\<close>, negated.\<close>

definition esi_requested :: "env \<Rightarrow> request \<Rightarrow> bool" where
  "esi_requested E s = (lower (getHeader s (ESI_HEADER E) ''false'') = ''true'')"

definition ESIRender_transformBytes ::
    "env \<Rightarrow> request \<Rightarrow> bytes \<Rightarrow> string \<Rightarrow> exn + (result option \<times> request)" where
  "ESIRender_transformBytes E s result encoding =
     (if \<not> esi_requested E s then Inr (None, s)
      else
        (case substituteESILinks E (RIter [IBytes result]) of
           Inl e \<Rightarrow> Inl e
         | Inr transformed \<Rightarrow> Inr (Some transformed, s)))"

definition ESIRender_transformUnicode ::
    "env \<Rightarrow> request \<Rightarrow> unicode \<Rightarrow> string \<Rightarrow> exn + (result option \<times> request)" where
  "ESIRender_transformUnicode E s result encoding =
     (if \<not> esi_requested E s then Inr (None, s)
      else
        (case encode E result encoding ''ignore'' of
           Inl e \<Rightarrow> Inl e
         | Inr b \<Rightarrow>
             (case substituteESILinks E (RIter [IBytes b]) of
                Inl e \<Rightarrow> Inl e
              | Inr transformed \<Rightarrow> Inr (Some transformed, s))))"

definition ESIRender_transformIterable ::
    "env \<Rightarrow> request \<Rightarrow> result \<Rightarrow> string \<Rightarrow> exn + (result option \<times> request)" where
  "ESIRender_transformIterable E s result encoding =
     (if \<not> esi_requested E s then Inr (None, s)
      else
        (case py_str E result of
           Inl e \<Rightarrow> Inl e
         | Inr str \<Rightarrow>
             let result' = RText (join [] (str_iter str))
             in (case substituteESILinks E result' of
                   Inl e \<Rightarrow> Inl e
                 | Inr transformed \<Rightarrow>
                     Inr (Some transformed,
                          if transformed \<noteq> result' then setHeader s ''X-Esi'' ''1''
                          else s))))"

subsection \<open>The transform chain\<close>

datatype stage = DisableParsing | ParseXML | MergePanels | IncludeTiles | ESIRender

text \<open>The \<^verbatim>\<open>order\<close> attribute of each class.\<close>

fun order :: "stage \<Rightarrow> nat" where
  "order DisableParsing = 8000"
| "order ParseXML = 8000"
| "order MergePanels = 8100"
| "order IncludeTiles = 8500"
| "order ESIRender = 9900"

fun transformBytes ::
    "stage \<Rightarrow> env \<Rightarrow> request \<Rightarrow> bytes \<Rightarrow> string \<Rightarrow> exn + (result option \<times> request)" where
  "transformBytes DisableParsing = DisableParsing_transformBytes"
| "transformBytes ParseXML = ParseXML_transformBytes"
| "transformBytes MergePanels = MergePanels_transformBytes"
| "transformBytes IncludeTiles = IncludeTiles_transformBytes"
| "transformBytes ESIRender = ESIRender_transformBytes"

fun transformUnicode ::
    "stage \<Rightarrow> env \<Rightarrow> request \<Rightarrow> unicode \<Rightarrow> string \<Rightarrow> exn + (result option \<times> request)" where
  "transformUnicode DisableParsing = DisableParsing_transformUnicode"
| "transformUnicode ParseXML = ParseXML_transformUnicode"
| "transformUnicode MergePanels = MergePanels_transformUnicode"
| "transformUnicode IncludeTiles = IncludeTiles_transformUnicode"
| "transformUnicode ESIRender = ESIRender_transformUnicode"

fun transformIterable ::
    "stage \<Rightarrow> env \<Rightarrow> request \<Rightarrow> result \<Rightarrow> string \<Rightarrow> exn + (result option \<times> request)" where
  "transformIterable DisableParsing = DisableParsing_transformIterable"
| "transformIterable ParseXML = ParseXML_transformIterable"
| "transformIterable MergePanels = MergePanels_transformIterable"
| "transformIterable IncludeTiles = IncludeTiles_transformIterable"
| "transformIterable ESIRender = ESIRender_transformIterable"

text \<open>
  Modelled from the spec: the stage runner of section 4.1, which is not part of
  \<^verbatim>\<open>transform.py\<close>. Each stage is invoked once, in order, through the entry point that
  matches the variant of the current result; a stage that returns a value replaces the
  current result, a stage that returns nothing leaves it, and an exception that leaves
  a stage leaves the chain.
\<close>

fun run_stage ::
    "env \<Rightarrow> stage \<Rightarrow> request \<Rightarrow> result \<Rightarrow> string \<Rightarrow> exn + (result option \<times> request)" where
  "run_stage E g s (RBytes b) encoding = transformBytes g E s b encoding"
| "run_stage E g s (RText t) encoding = transformUnicode g E s t encoding"
| "run_stage E g s result encoding = transformIterable g E s result encoding"

text \<open>
  Modelled from the spec: the chain of section 4.1 over a list of stages, which is not
  part of \<^verbatim>\<open>transform.py\<close>. The result of the last stage and the request after it are
  handed back.
\<close>

fun chain ::
    "env \<Rightarrow> stage list \<Rightarrow> request \<Rightarrow> result \<Rightarrow> string \<Rightarrow> exn + (result \<times> request)" where
  "chain E [] s result encoding = Inr (result, s)"
| "chain E (g # gs) s result encoding =
     (case run_stage E g s result encoding of
        Inl e \<Rightarrow> Inl e
      | Inr (None, s') \<Rightarrow> chain E gs s' result encoding
      | Inr (Some result', s') \<Rightarrow> chain E gs s' result' encoding)"

text \<open>
  Modelled from the spec: the registration of sections 4.2 to 4.6, the stages of this
  package in ascending \<open>order\<close>, with and without the bypass stage, which is
  registered for some published objects only.
\<close>

definition pipeline :: "bool \<Rightarrow> stage list" where
  "pipeline bypass =
     (if bypass then [DisableParsing] else []) @
     [ParseXML, MergePanels, IncludeTiles, ESIRender]"

subsection \<open>The normalization in the words of the specification\<close>

text \<open>
  One pass from the left: an encoded carriage return followed by a linefeed becomes a
  single linefeed, an encoded carriage return alone becomes a linefeed, every other
  byte is kept. It is compared with \<open>normalize\<close>, the two substitutions of the source.
\<close>

fun collapse :: "bytes \<Rightarrow> bytes" where
  "collapse [] = []"
| "collapse (x # xs) =
     (if startswith (x # xs) (CR @ LF) then LF @ collapse (drop 5 xs)
      else if startswith (x # xs) CR then LF @ collapse (drop 4 xs)
      else x # collapse xs)"

subsection \<open>Flag monotonicity\<close>

text \<open>Between two requests \<open>s\<close> and \<open>s'\<close>, every key of the request's mapping either
  keeps its value or holds \<open>True\<close>.\<close>

definition flags_monotone :: "request \<Rightarrow> request \<Rightarrow> bool" where
  "flags_monotone s s' = (\<forall>k. flags s' k = flags s k \<or> flags s' k = Some True)"

subsection \<open>A concrete environment\<close>

text \<open>
  Collaborators simple enough to evaluate: a parser that rejects an empty document and
  otherwise keeps the bytes as one text node under the XML serializer, a merge that
  finds a layout only for a document that asks for one, a tile renderer that leaves
  the tree alone, a substitution that rewrites one placeholder, and the ASCII codec.
\<close>

definition demo_parse :: "bytes list \<Rightarrow> bool \<Rightarrow> string \<Rightarrow> exn + XMLSerializer" where
  "demo_parse chunks pp encoding =
     (if concat chunks = [] then Inl ParseError
      else Inr \<lparr>tree = \<lparr>doctype = [], root = Chars (concat chunks)\<rparr>,
                serializer = etree_tostring, pretty_print = pp\<rparr>)"

definition demo_merge :: "request \<Rightarrow> etree \<Rightarrow> exn + etree option" where
  "demo_merge s t =
     (if root t = Chars ''layout'' then
        Inr (Some \<lparr>doctype = ''<!DOCTYPE html>'', root = Element ''html'' [] [root t]\<rparr>)
      else Inr None)"

definition placeholder :: string where
  "placeholder = ''<a rel=esi>''"

definition esi_include :: string where
  "esi_include = ''<esi:include>''"

fun demo_substitute :: "result \<Rightarrow> exn + result" where
  "demo_substitute (RText t) =
     Inr (RText (re_sub (map of_char placeholder) (map of_char esi_include) t))"
| "demo_substitute (RIter [IBytes b]) = Inr (RBytes (re_sub placeholder esi_include b))"
| "demo_substitute v = Inl TypeError"

fun demo_str :: "result \<Rightarrow> exn + unicode" where
  "demo_str (RText t) = Inr t"
| "demo_str (RBytes b) = Inr (map of_char b)"
| "demo_str (RIter xs) =
     Inr (concat (map (\<lambda>i. case i of
                               IText t \<Rightarrow> t
                             | IBytes b \<Rightarrow> map of_char b
                             | IInt n \<Rightarrow> []) xs))"
| "demo_str (RSerializer x) = Inr []"

definition ascii_codec :: "nat \<Rightarrow> bytes option" where
  "ascii_codec c = (if c < 128 then Some [char_of c] else None)"

definition demo_env :: env where
  "demo_env =
     \<lparr>ESI_HEADER = ''X-ESI-Enabled'',
      ParseXML_pretty_print = False,
      getHTMLSerializer = demo_parse,
      panel_merge = demo_merge,
      renderTiles = (\<lambda>s t. Inr t),
      substituteESILinks = demo_substitute,
      py_str = demo_str,
      xml_iter = (\<lambda>x. Inr []),
      lookup_codec = (\<lambda>name. if name = ''ascii'' then Some ascii_codec else None)\<rparr>"

text \<open>A request as the publisher creates it: no flag set, an HTML response.\<close>

definition fresh :: request where
  "fresh =
     \<lparr>flags = Map.empty, headers = Map.empty,
      response_headers = [''Content-Type'' \<mapsto> ''text/html; charset=utf-8''],
      log = []\<rparr>"

text \<open>Requests used to evaluate the stages: the bypass flag set and the edge header
  sent; a response that is not HTML, with the edge header; a response compressed with
  deflate, with the edge header; a response that declares gzip; an enabled request;
  and responses that are not HTML or compressed, without the edge header.\<close>

definition bypassed :: request where
  "bypassed =
     fresh\<lparr>flags := [''plone.app.blocks.disabled'' \<mapsto> True],
           headers := [''X-ESI-Enabled'' \<mapsto> ''TRUE'']\<rparr>"

definition xhtml_edge :: request where
  "xhtml_edge =
     \<lparr>flags = Map.empty, headers = [''X-ESI-Enabled'' \<mapsto> ''true''],
      response_headers = [''Content-Type'' \<mapsto> ''application/xhtml+xml''],
      log = []\<rparr>"

definition deflate_edge :: request where
  "deflate_edge =
     \<lparr>flags = Map.empty, headers = [''X-ESI-Enabled'' \<mapsto> ''true''],
      response_headers =
        [''Content-Type'' \<mapsto> ''text/html'', ''Content-Encoding'' \<mapsto> ''deflate''],
      log = []\<rparr>"

definition gzip_response :: request where
  "gzip_response =
     \<lparr>flags = Map.empty, headers = Map.empty,
      response_headers =
        [''Content-Type'' \<mapsto> ''text/html'', ''Content-Encoding'' \<mapsto> ''gzip''],
      log = []\<rparr>"

definition json_response :: request where
  "json_response =
     \<lparr>flags = Map.empty, headers = Map.empty,
      response_headers = [''Content-Type'' \<mapsto> ''application/json''],
      log = []\<rparr>"

definition deflate_response :: request where
  "deflate_response =
     \<lparr>flags = Map.empty, headers = Map.empty,
      response_headers =
        [''Content-Type'' \<mapsto> ''text/html'', ''Content-Encoding'' \<mapsto> ''deflate''],
      log = []\<rparr>"

definition enabled_edge :: request where
  "enabled_edge =
     fresh\<lparr>flags := [''plone.app.blocks.enabled'' \<mapsto> True],
           headers := [''X-ESI-Enabled'' \<mapsto> ''True'']\<rparr>"

definition composed :: request where
  "composed =
     fresh\<lparr>flags := [''plone.app.blocks.enabled'' \<mapsto> True,
                      ''plone.app.blocks.merged'' \<mapsto> True]\<rparr>"

section \<open>Properties\<close>

subsection \<open>Substitution and normalization\<close>

lemma startswith_disjoint:
  "r \<noteq> [] \<Longrightarrow> set q \<inter> set r = {} \<Longrightarrow> startswith (re_sub p r s) q \<Longrightarrow> startswith s q"
proof (induction p r s arbitrary: q rule: re_sub.induct)
  case (1 p r)
  then show ?case by (cases q) auto
next
  case (2 p r x xs)
  show ?case
  proof (cases q)
    case Nil
    then show ?thesis by simp
  next
    case (Cons a q')
    show ?thesis
    proof (cases "p \<noteq> [] \<and> startswith (x # xs) p")
      case True
      obtain b r' where r: "r = b # r'" using "2.prems"(1) by (cases r) auto
      from True "2.prems"(3) Cons r have "a = b" by simp
      with "2.prems"(2) Cons r show ?thesis by auto
    next
      case False
      with "2.prems"(3) Cons have ax: "a = x" and sw: "startswith (re_sub p r xs) q'" by auto
      from "2.prems"(2) Cons have "set q' \<inter> set r = {}" by auto
      from "2.IH"(2)[OF False "2.prems"(1) this sw] ax Cons show ?thesis by simp
    qed
  qed
qed

lemma startswith_iff_append: "startswith s p \<longleftrightarrow> (\<exists>t. s = p @ t)"
  by (induction s p rule: startswith.induct) auto

lemma normalize_Nil: "normalize [] = []"
  by (simp add: normalize_def)

lemma normalize_CRLF:
  assumes "startswith (x # xs) (CR @ LF)"
  shows "normalize (x # xs) = LF @ normalize (drop 5 xs)"
proof -
  from assms obtain v where "x # xs = (CR @ LF) @ v"
    unfolding startswith_iff_append by blast
  then have "x = CHR ''&''" and "xs = ''#13;'' @ LF @ v"
    by (simp_all add: CR_def)
  then show ?thesis
    by (simp add: normalize_def CR_def LF_def)
qed

lemma normalize_CR:
  assumes "\<not> startswith (x # xs) (CR @ LF)" and "startswith (x # xs) CR"
  shows "normalize (x # xs) = LF @ normalize (drop 4 xs)"
proof -
  from assms(2) obtain v where "x # xs = CR @ v"
    unfolding startswith_iff_append by blast
  then have x: "x = CHR ''&''" and xs: "xs = ''#13;'' @ v"
    by (simp_all add: CR_def)
  with assms(1) have v: "\<not> startswith v LF"
    by (simp add: CR_def LF_def)
  have "re_sub (CR @ LF) LF (x # xs) = CR @ re_sub (CR @ LF) LF v"
    using x xs v by (simp add: CR_def LF_def)
  then show ?thesis
    using xs by (simp add: normalize_def CR_def LF_def)
qed

lemma normalize_other:
  assumes "\<not> startswith (x # xs) CR"
  shows "normalize (x # xs) = x # normalize xs"
proof -
  have "\<not> startswith (x # xs) (CR @ LF)"
    using assms unfolding startswith_iff_append by auto
  then have f: "re_sub (CR @ LF) LF (x # xs) = x # re_sub (CR @ LF) LF xs"
    by simp
  have "\<not> startswith (x # re_sub (CR @ LF) LF xs) CR"
  proof
    assume a: "startswith (x # re_sub (CR @ LF) LF xs) CR"
    then have x: "x = CHR ''&''" and "startswith (re_sub (CR @ LF) LF xs) ''#13;''"
      by (simp_all add: CR_def)
    then have "startswith xs ''#13;''"
      by (intro startswith_disjoint[of LF "''#13;''" "CR @ LF" xs]) (simp_all add: LF_def)
    with x assms show False by (simp add: CR_def)
  qed
  then have "re_sub CR LF (x # re_sub (CR @ LF) LF xs) = x # re_sub CR LF (re_sub (CR @ LF) LF xs)"
    by simp
  then show ?thesis
    unfolding normalize_def f .
qed

lemma normalize_collapse: "normalize b = collapse b"
proof (induction b rule: collapse.induct)
  case 1
  show ?case by (simp add: normalize_Nil)
next
  case (2 x xs)
  show ?case
  proof (cases "startswith (x # xs) (CR @ LF)")
    case True
    with 2 show ?thesis by (simp add: normalize_CRLF)
  next
    case crlf: False
    show ?thesis
    proof (cases "startswith (x # xs) CR")
      case True
      with crlf 2 show ?thesis by (simp add: normalize_CR)
    next
      case False
      with crlf 2 show ?thesis by (simp add: normalize_other)
    qed
  qed
qed

lemma contains_append_disjoint:
  "p \<noteq> [] \<Longrightarrow> set p \<inter> set r = {} \<Longrightarrow> contains (r @ t) p = contains t p"
proof (induction r)
  case Nil
  then show ?case by simp
next
  case (Cons a r)
  then obtain b p' where p: "p = b # p'" by (cases p) auto
  with Cons.prems have "a \<noteq> b" by auto
  with Cons p show ?case by auto
qed

lemma re_sub_no_occurrence:
  "p \<noteq> [] \<Longrightarrow> r \<noteq> [] \<Longrightarrow> set p \<inter> set r = {} \<Longrightarrow> \<not> contains (re_sub p r s) p"
proof (induction p r s rule: re_sub.induct)
  case (1 p r)
  then show ?case by simp
next
  case (2 p r x xs)
  show ?case
  proof (cases "p \<noteq> [] \<and> startswith (x # xs) p")
    case True
    with 2 show ?thesis by (simp add: contains_append_disjoint)
  next
    case False
    have "\<not> startswith (x # re_sub p r xs) p"
    proof
      assume a: "startswith (x # re_sub p r xs) p"
      obtain b p' where p: "p = b # p'" using "2.prems"(1) by (cases p) auto
      from a p have "b = x" and sw: "startswith (re_sub p r xs) p'" by auto
      from "2.prems"(3) p have "set p' \<inter> set r = {}" by auto
      from startswith_disjoint[OF "2.prems"(2) this sw] \<open>b = x\<close> p
      have "startswith (x # xs) p" by simp
      with False "2.prems"(1) show False by simp
    qed
    with False 2 show ?thesis by simp
  qed
qed

lemma normalize_items_bytes:
  "normalize_items (map IBytes bs) = Inr (map normalize (filter (\<lambda>b. b \<noteq> []) bs))"
  by (induction bs) (simp_all add: normalize_item_def normalize_def)

lemma normalize_no_CR: "\<not> contains (normalize b) CR"
  unfolding normalize_def by (rule re_sub_no_occurrence) (simp_all add: CR_def LF_def)

text \<open>
  C5. Every chunk of bytes the parse stage accepts (the non-empty ones) is handed to the
  parser normalized; the two substitutions of the source replace each encoded carriage
  return followed by a linefeed by one linefeed and each remaining encoded carriage
  return by a linefeed, as the one-pass \<open>collapse\<close> does; and the normalized chunk
  contains no encoded carriage return.
\<close>

theorem normalize_removes_encoded_CR:
  "normalize_items (map IBytes bs) = Inr (map normalize (filter (\<lambda>b. b \<noteq> []) bs)) \<and>
   normalize b = collapse b \<and>
   \<not> contains (normalize b) CR"
  by (intro conjI normalize_items_bytes normalize_collapse normalize_no_CR)

subsection \<open>Guards of the stages\<close>

lemma join_str_iter: "join [] (str_iter s) = s"
proof (induction s)
  case Nil
  show ?case by (simp add: str_iter_def)
next
  case (Cons c s)
  then show ?case by (cases s) (simp_all add: str_iter_def)
qed

lemma ParseXML_disabled:
  "request_get s ''plone.app.blocks.disabled'' False \<Longrightarrow>
   ParseXML_transformIterable E s r enc = Inr (None, s)"
  by (simp add: ParseXML_transformIterable_def)

lemma ParseXML_not_html:
  assumes "response_headers s ''Content-Type'' = None \<or>
           (\<exists>ct. response_headers s ''Content-Type'' = Some ct \<and>
                 \<not> startswith ct ''text/html'')"
  shows "ParseXML_transformIterable E s r enc = Inr (None, s)"
  using assms by (auto simp: ParseXML_transformIterable_def)

lemma ParseXML_compressed:
  assumes "response_headers s ''Content-Encoding'' = Some ce"
    and "ce = ''deflate'' \<or> ce = ''compress''"
  shows "ParseXML_transformIterable E s r enc = Inr (None, s)"
  using assms by (auto simp: ParseXML_transformIterable_def split: option.splits)

lemma ParseXML_runs:
  assumes "\<not> request_get s ''plone.app.blocks.disabled'' False"
    and "response_headers s ''Content-Type'' = Some ct"
    and "startswith ct ''text/html''"
    and "response_headers s ''Content-Encoding'' = None \<or>
         (\<exists>v. response_headers s ''Content-Encoding'' = Some v \<and>
              v \<noteq> ''zip'' \<and> v \<noteq> ''deflate'' \<and> v \<noteq> ''compress'')"
  shows "ParseXML_transformIterable E s r enc =
         (case parse_body E r enc of
            Inr x \<Rightarrow> Inr (Some (RSerializer x), request_set s ''plone.app.blocks.enabled'' True)
          | Inl e \<Rightarrow> if caught e then Inr (None, logger_error s e) else Inl e)"
  using assms by (auto simp: ParseXML_transformIterable_def)

lemma MergePanels_not_enabled:
  "\<not> request_get s ''plone.app.blocks.enabled'' False \<Longrightarrow>
   MergePanels_transformIterable E s r enc = Inr (None, s)"
  by (cases r) simp_all

lemma IncludeTiles_not_enabled:
  "\<not> request_get s ''plone.app.blocks.enabled'' False \<Longrightarrow>
   IncludeTiles_transformIterable E s r enc = Inr (None, s)"
  by (cases r) simp_all

lemma ESIRender_transformIterable_requested:
  assumes "esi_requested E s" and "py_str E r = Inr str"
    and "substituteESILinks E (RText str) = Inr y"
  shows "ESIRender_transformIterable E s r enc =
         Inr (Some y, if y \<noteq> RText str then setHeader s ''X-Esi'' ''1'' else s)"
  using assms by (simp add: ESIRender_transformIterable_def join_str_iter)

text \<open>An exception the handler does not name leaves the parse stage: text with a lone
  surrogate cannot be encoded as UTF-8.\<close>

lemma ParseXML_surrogate_propagates:
  "ParseXML_transformUnicode E fresh [55296] enc = Inl UnicodeEncodeError"
  by (simp add: ParseXML_transformUnicode_def ParseXML_transformIterable_def fresh_def
      request_get_def parse_body_def normalize_item_def encode_utf8_def is_surrogate_def)

subsection \<open>The chain when no stage acts\<close>

lemma pipeline_sorted: "sorted (map order (pipeline bypass))"
  by (simp add: pipeline_def)


lemma run_stage_ParseXML_noop:
  assumes "\<And>r'. ParseXML_transformIterable E s r' enc = Inr (None, s)"
  shows "run_stage E ParseXML s r enc = Inr (None, s)"
  using assms
  by (cases r) (simp_all add: ParseXML_transformBytes_def ParseXML_transformUnicode_def)

lemma run_stage_MergePanels_noop:
  "\<not> request_get s ''plone.app.blocks.enabled'' False \<Longrightarrow>
   run_stage E MergePanels s r enc = Inr (None, s)"
  by (cases r)
     (simp_all add: MergePanels_transformBytes_def MergePanels_transformUnicode_def)

lemma run_stage_IncludeTiles_noop:
  "\<not> request_get s ''plone.app.blocks.enabled'' False \<Longrightarrow>
   run_stage E IncludeTiles s r enc = Inr (None, s)"
  by (cases r)
     (simp_all add: IncludeTiles_transformBytes_def IncludeTiles_transformUnicode_def)

lemma run_stage_ESIRender_noop:
  "\<not> esi_requested E s \<Longrightarrow> run_stage E ESIRender s r enc = Inr (None, s)"
  by (cases r)
     (simp_all add: ESIRender_transformBytes_def ESIRender_transformUnicode_def
       ESIRender_transformIterable_def)

lemma run_stage_DisableParsing:
  "run_stage E DisableParsing s r enc =
   Inr (None, request_set s ''plone.app.blocks.disabled'' True)"
  by (cases r)
     (simp_all add: DisableParsing_transformBytes_def DisableParsing_transformUnicode_def
       DisableParsing_transformIterable_def)

lemma chain_passes_through:
  assumes "\<And>r'. ParseXML_transformIterable E s r' enc = Inr (None, s)"
    and "\<not> request_get s ''plone.app.blocks.enabled'' False"
    and "\<not> esi_requested E s"
  shows "chain E (pipeline bypass) s r enc =
         Inr (r, if bypass then request_set s ''plone.app.blocks.disabled'' True else s)"
proof (cases bypass)
  case False
  then show ?thesis
    using assms
    by (simp add: pipeline_def run_stage_ParseXML_noop run_stage_MergePanels_noop
        run_stage_IncludeTiles_noop run_stage_ESIRender_noop)
next
  case True
  define s1 where "s1 = request_set s ''plone.app.blocks.disabled'' True"
  have d: "request_get s1 ''plone.app.blocks.disabled'' False"
    by (simp add: s1_def request_set_def request_get_def)
  have p: "run_stage E ParseXML s1 r enc = Inr (None, s1)"
    by (rule run_stage_ParseXML_noop) (simp add: ParseXML_disabled d)
  have e: "\<not> request_get s1 ''plone.app.blocks.enabled'' False"
    using assms(2) by (simp add: s1_def request_set_def request_get_def)
  have h: "\<not> esi_requested E s1"
    using assms(3) by (simp add: s1_def request_set_def esi_requested_def getHeader_def)
  show ?thesis
    using True p e h
    by (simp add: pipeline_def run_stage_DisableParsing s1_def[symmetric]
        run_stage_MergePanels_noop run_stage_IncludeTiles_noop run_stage_ESIRender_noop)
qed

subsection \<open>The concrete environment evaluated\<close>

lemma lower_TRUE: "lower ''TRUE'' = ''true''"
  by (simp add: lower_def lower_char_def)

lemma lower_True: "lower ''True'' = ''true''"
  by (simp add: lower_def lower_char_def)

lemma demo_substitute_bytes:
  "substituteESILinks demo_env (RIter [IBytes ''<a rel=esi>'']) = Inr (RBytes ''<esi:include>'')"
  by (simp add: demo_env_def placeholder_def esi_include_def)

lemma demo_substitute_text:
  "substituteESILinks demo_env (RText [60, 97, 32, 114, 101, 108, 61, 101, 115, 105, 62]) =
   Inr (RText [60, 101, 115, 105, 58, 105, 110, 99, 108, 117, 100, 101, 62])"
  by (simp add: demo_env_def placeholder_def esi_include_def)

lemma demo_substitute_plain:
  "substituteESILinks demo_env (RText [120]) = Inr (RText [120])"
  by (simp add: demo_env_def placeholder_def esi_include_def)

lemma encode_ignore_ascii: "encode_ignore ascii_codec [104, 233, 105] = ''hi''"
  by code_simp

lemma not_requested_without_header:
  "headers s (ESI_HEADER E) = None \<Longrightarrow> lower (getHeader s (ESI_HEADER E) ''false'') \<noteq> ''true''"
  by (simp add: getHeader_def lower_def lower_char_def)

lemma parse_body_paragraph:
  "parse_body demo_env (RIter [IBytes ''<p>hi</p>'']) ''utf-8'' =
   Inr \<lparr>tree = \<lparr>doctype = [], root = Chars ''<p>hi</p>''\<rparr>,
        serializer = etree_tostring, pretty_print = False\<rparr>"
  by (simp add: parse_body_def demo_env_def demo_parse_def normalize_item_def CR_def LF_def
      CDATA_def)

lemma parse_body_number:
  "parse_body demo_env (RIter [IInt 7]) ''utf-8'' = Inl TypeError"
  by (simp add: parse_body_def normalize_item_def)

lemma parse_body_empty:
  "parse_body demo_env (RIter [IBytes []]) ''utf-8'' = Inl ParseError"
  by (simp add: parse_body_def demo_env_def demo_parse_def)

lemma parse_body_cdata:
  "parse_body demo_env (RIter [IBytes [], IBytes ''<![CDATA[x]]>'']) ''utf-8'' =
   Inr \<lparr>tree = \<lparr>doctype = [], root = Chars ''<![CDATA[x]]>''\<rparr>,
        serializer = html_tostring, pretty_print = False\<rparr>"
  by (simp add: parse_body_def demo_env_def demo_parse_def normalize_item_def CR_def LF_def
      CDATA_def)

lemma ParseXML_cdata:
  "ParseXML_transformIterable demo_env fresh (RIter [IBytes [], IBytes ''<![CDATA[x]]>'']) ''utf-8'' =
   Inr (Some (RSerializer \<lparr>tree = \<lparr>doctype = [], root = Chars ''<![CDATA[x]]>''\<rparr>,
                           serializer = html_tostring, pretty_print = False\<rparr>),
        request_set fresh ''plone.app.blocks.enabled'' True)"
  unfolding ParseXML_transformIterable_def parse_body_cdata
  by (simp add: fresh_def request_get_def)

lemma parse_body_layout:
  "parse_body demo_env (RIter [IBytes ''layout'']) ''utf-8'' =
   Inr \<lparr>tree = \<lparr>doctype = [], root = Chars ''layout''\<rparr>,
        serializer = etree_tostring, pretty_print = False\<rparr>"
  by (simp add: parse_body_def demo_env_def demo_parse_def normalize_item_def CR_def LF_def
      CDATA_def)

lemma parse_body_gzip:
  "parse_body demo_env (RIter [IBytes [CHR 0x1F, CHR 0x8B, CHR 0x08]]) ''utf-8'' =
   Inr \<lparr>tree = \<lparr>doctype = [], root = Chars [CHR 0x1F, CHR 0x8B, CHR 0x08]\<rparr>,
        serializer = etree_tostring, pretty_print = False\<rparr>"
  by (simp add: parse_body_def demo_env_def demo_parse_def normalize_item_def CR_def LF_def
      CDATA_def)

lemma edge_stage_rewrites_bytes:
  assumes "esi_requested demo_env s"
  shows "ESIRender_transformBytes demo_env s ''<a rel=esi>'' ''utf-8'' =
         Inr (Some (RBytes ''<esi:include>''), s)"
  using assms demo_substitute_bytes by (simp add: ESIRender_transformBytes_def)

lemma chain_edge_only:
  assumes "\<And>r. ParseXML_transformIterable demo_env s r ''utf-8'' = Inr (None, s)"
    and "\<not> request_get s ''plone.app.blocks.enabled'' False"
    and "esi_requested demo_env s"
  shows "chain demo_env (pipeline False) s (RBytes ''<a rel=esi>'') ''utf-8'' =
         Inr (RBytes ''<esi:include>'', s)"
  using assms edge_stage_rewrites_bytes[OF assms(3)]
  by (simp add: pipeline_def ParseXML_transformBytes_def MergePanels_transformBytes_def
      IncludeTiles_transformBytes_def)

lemma chain_edge_only_iterable:
  assumes "\<And>r. ParseXML_transformIterable demo_env s r ''utf-8'' = Inr (None, s)"
    and "\<not> request_get s ''plone.app.blocks.enabled'' False"
    and "esi_requested demo_env s"
  shows "chain demo_env (pipeline False) s
           (RIter [IText [60, 97, 32, 114, 101, 108, 61, 101, 115, 105, 62]]) ''utf-8'' =
         Inr (RText [60, 101, 115, 105, 58, 105, 110, 99, 108, 117, 100, 101, 62],
              setHeader s ''X-Esi'' ''1'')"
proof -
  have p: "py_str demo_env (RIter [IText [60, 97, 32, 114, 101, 108, 61, 101, 115, 105, 62]]) =
           Inr [60, 97, 32, 114, 101, 108, 61, 101, 115, 105, 62]"
    by (simp add: demo_env_def)
  have e: "ESIRender_transformIterable demo_env s
             (RIter [IText [60, 97, 32, 114, 101, 108, 61, 101, 115, 105, 62]]) ''utf-8'' =
           Inr (Some (RText [60, 101, 115, 105, 58, 105, 110, 99, 108, 117, 100, 101, 62]),
                setHeader s ''X-Esi'' ''1'')"
    using ESIRender_transformIterable_requested[OF assms(3) p demo_substitute_text]
    by simp
  show ?thesis
    using assms(1,2) e by (simp add: pipeline_def)
qed

lemma chain_layout:
  "chain demo_env (pipeline False) fresh (RBytes ''layout'') ''utf-8'' =
   Inr (RSerializer
          \<lparr>tree = \<lparr>doctype = ''<!DOCTYPE html>'',
                   root = Element ''html'' [] [Chars ''layout'']\<rparr>,
           serializer = html_tostring, pretty_print = False\<rparr>,
        composed)"
proof -
  have p: "ParseXML_transformBytes demo_env fresh ''layout'' ''utf-8'' =
      Inr (Some (RSerializer \<lparr>tree = \<lparr>doctype = [], root = Chars ''layout''\<rparr>,
                              serializer = etree_tostring, pretty_print = False\<rparr>),
           request_set fresh ''plone.app.blocks.enabled'' True)"
    unfolding ParseXML_transformBytes_def ParseXML_transformIterable_def parse_body_layout
    by (simp add: fresh_def request_get_def)
  have s: "request_set (request_set fresh ''plone.app.blocks.enabled'' True)
             ''plone.app.blocks.merged'' True = composed"
    by (simp add: request_set_def composed_def fresh_def)
  have e: "\<not> esi_requested demo_env composed"
    by (simp add: esi_requested_def composed_def fresh_def getHeader_def lower_def
        lower_char_def)
  have en: "request_get composed ''plone.app.blocks.enabled'' False"
    by (simp add: composed_def fresh_def request_get_def)
  show ?thesis
    using p e en
    by (simp add: pipeline_def request_get_def request_set_def fresh_def demo_env_def
        demo_merge_def composed_def Let_def ESIRender_transformIterable_def)
qed

lemma chain_bypassed:
  "chain demo_env (pipeline False) bypassed (RBytes ''<p>'') ''ascii'' =
   Inr (RBytes ''<p>'', bypassed)"
proof -
  have d: "request_get bypassed ''plone.app.blocks.disabled'' False"
    by (simp add: bypassed_def fresh_def request_get_def)
  have n: "\<not> request_get bypassed ''plone.app.blocks.enabled'' False"
    by (simp add: bypassed_def fresh_def request_get_def)
  have h: "esi_requested demo_env bypassed"
    by (simp add: esi_requested_def bypassed_def fresh_def demo_env_def getHeader_def
        lower_TRUE)
  have s: "substituteESILinks demo_env (RIter [IBytes ''<p>'']) = Inr (RBytes ''<p>'')"
    by (simp add: demo_env_def placeholder_def esi_include_def)
  show ?thesis
    using h s
    by (simp add: pipeline_def ParseXML_transformBytes_def ParseXML_disabled[OF d]
        MergePanels_transformBytes_def IncludeTiles_transformBytes_def
        ESIRender_transformBytes_def)
qed


subsection \<open>Compressed responses\<close>

text \<open>
  C1, as amended. When the response declares the content encoding \<^verbatim>\<open>deflate\<close> or
  \<^verbatim>\<open>compress\<close>, every entry point of the parse stage returns nothing and leaves the
  request as it is; and on a request whose enabled flag is not set and whose edge header
  is not "true", the chain hands back its input unchanged.
\<close>

theorem compressed_passes_through_without_edge_header:
  assumes "response_headers s ''Content-Encoding'' = Some ce"
    and "ce = ''deflate'' \<or> ce = ''compress''"
  shows
    "ParseXML_transformBytes E s b enc = Inr (None, s) \<and>
     ParseXML_transformUnicode E s t enc = Inr (None, s) \<and>
     ParseXML_transformIterable E s r enc = Inr (None, s) \<and>
     (\<not> request_get s ''plone.app.blocks.enabled'' False \<and>
      lower (getHeader s (ESI_HEADER E) ''false'') \<noteq> ''true'' \<longrightarrow>
        chain E (pipeline bypass) s r enc =
          Inr (r, if bypass
                  then s\<lparr>flags := (flags s)(''plone.app.blocks.disabled'' \<mapsto> True)\<rparr>
                  else s))"
  using ParseXML_compressed[OF assms]
    chain_passes_through[of E s enc bypass r, OF ParseXML_compressed[OF assms]]
  by (simp add: ParseXML_transformBytes_def ParseXML_transformUnicode_def
      esi_requested_def request_set_def)

theorem compressed_passes_through_without_edge_header_witness:
  "response_headers deflate_response ''Content-Encoding'' = Some ''deflate'' \<and>
   \<not> request_get deflate_response ''plone.app.blocks.enabled'' False \<and>
   lower (getHeader deflate_response (ESI_HEADER demo_env) ''false'') \<noteq> ''true'' \<and>
   ParseXML_transformBytes demo_env deflate_response ''<a rel=esi>'' ''utf-8'' =
     Inr (None, deflate_response) \<and>
   ParseXML_transformUnicode demo_env deflate_response [120] ''utf-8'' =
     Inr (None, deflate_response) \<and>
   ParseXML_transformIterable demo_env deflate_response (RBytes ''<a rel=esi>'') ''utf-8'' =
     Inr (None, deflate_response) \<and>
   chain demo_env (pipeline False) deflate_response (RBytes ''<a rel=esi>'') ''utf-8'' =
     Inr (RBytes ''<a rel=esi>'', deflate_response)"
proof -
  have ce: "response_headers deflate_response ''Content-Encoding'' = Some ''deflate''"
    by (simp add: deflate_response_def)
  have en: "\<not> request_get deflate_response ''plone.app.blocks.enabled'' False"
    by (simp add: deflate_response_def request_get_def)
  have h: "lower (getHeader deflate_response (ESI_HEADER demo_env) ''false'') \<noteq> ''true''"
    by (rule not_requested_without_header) (simp add: deflate_response_def)
  have v: "''deflate'' = ''deflate'' \<or> ''deflate'' = ''compress''"
    by simp
  from compressed_passes_through_without_edge_header[OF ce v, of demo_env "''<a rel=esi>''"
      "''utf-8''" "[120]" "RBytes ''<a rel=esi>''" False] ce en h
  show ?thesis by simp
qed


text \<open>
  The claim as first stated fails in two places. With \<^verbatim>\<open>deflate\<close> declared and the
  edge header "true", the parse stage returns nothing but the edge-directive stage
  still rewrites the body, so the chain's output differs from its input. And a
  response that declares \<^verbatim>\<open>gzip\<close> is not skipped: the parse stage hands the bytes to
  the parser and sets the enabled flag.
\<close>

theorem compressed_changed_or_parsed:
  "response_headers deflate_edge ''Content-Encoding'' = Some ''deflate'' \<and>
   ParseXML_transformBytes demo_env deflate_edge ''<a rel=esi>'' ''utf-8'' =
     Inr (None, deflate_edge) \<and>
   chain demo_env (pipeline False) deflate_edge (RBytes ''<a rel=esi>'') ''utf-8'' =
     Inr (RBytes ''<esi:include>'', deflate_edge) \<and>
   RBytes ''<esi:include>'' \<noteq> RBytes ''<a rel=esi>'' \<and>
   response_headers gzip_response ''Content-Encoding'' = Some ''gzip'' \<and>
   ParseXML_transformBytes demo_env gzip_response [CHR 0x1F, CHR 0x8B, CHR 0x08] ''utf-8'' =
     Inr (Some (RSerializer
                  \<lparr>tree = \<lparr>doctype = [], root = Chars [CHR 0x1F, CHR 0x8B, CHR 0x08]\<rparr>,
                   serializer = etree_tostring, pretty_print = False\<rparr>),
          request_set gzip_response ''plone.app.blocks.enabled'' True)"
proof -
  have ce: "response_headers deflate_edge ''Content-Encoding'' = Some ''deflate''"
    by (simp add: deflate_edge_def)
  have p: "ParseXML_transformIterable demo_env deflate_edge r ''utf-8'' = Inr (None, deflate_edge)"
    for r
    by (rule ParseXML_compressed[OF ce]) simp
  have en: "\<not> request_get deflate_edge ''plone.app.blocks.enabled'' False"
    by (simp add: request_get_def deflate_edge_def)
  have h: "esi_requested demo_env deflate_edge"
    by (simp add: esi_requested_def demo_env_def deflate_edge_def getHeader_def lower_def
        lower_char_def)
  have gz: "response_headers gzip_response ''Content-Encoding'' = Some ''gzip''"
    by (simp add: gzip_response_def)
  have g: "ParseXML_transformBytes demo_env gzip_response [CHR 0x1F, CHR 0x8B, CHR 0x08] ''utf-8'' =
     Inr (Some (RSerializer
                  \<lparr>tree = \<lparr>doctype = [], root = Chars [CHR 0x1F, CHR 0x8B, CHR 0x08]\<rparr>,
                   serializer = etree_tostring, pretty_print = False\<rparr>),
          request_set gzip_response ''plone.app.blocks.enabled'' True)"
    unfolding ParseXML_transformBytes_def ParseXML_transformIterable_def parse_body_gzip
    by (simp add: gzip_response_def request_get_def)
  from chain_edge_only[OF p en h] p ce gz g show ?thesis
    by (simp add: ParseXML_transformBytes_def)
qed


subsection \<open>The bypass flag\<close>

text \<open>
  C2. With the disabled flag set and the enabled flag not set, every entry point of the
  parse, panel-merge and tile-inclusion stages returns nothing and leaves the request
  as it is, while each entry point of the edge-directive stage still hands its input to
  the substitution and returns what comes back whenever the edge header, lowered, is
  "true".
\<close>

theorem bypass_skips_composition_only:
  assumes "request_get s ''plone.app.blocks.disabled'' False"
    and "\<not> request_get s ''plone.app.blocks.enabled'' False"
  shows
    "ParseXML_transformBytes E s b enc = Inr (None, s) \<and>
     ParseXML_transformUnicode E s t enc = Inr (None, s) \<and>
     ParseXML_transformIterable E s r enc = Inr (None, s) \<and>
     MergePanels_transformBytes E s b enc = Inr (None, s) \<and>
     MergePanels_transformUnicode E s t enc = Inr (None, s) \<and>
     MergePanels_transformIterable E s r enc = Inr (None, s) \<and>
     IncludeTiles_transformBytes E s b enc = Inr (None, s) \<and>
     IncludeTiles_transformUnicode E s t enc = Inr (None, s) \<and>
     IncludeTiles_transformIterable E s r enc = Inr (None, s) \<and>
     (lower (getHeader s (ESI_HEADER E) ''false'') = ''true'' \<and>
      substituteESILinks E (RIter [IBytes b]) = Inr y1 \<longrightarrow>
        ESIRender_transformBytes E s b enc = Inr (Some y1, s)) \<and>
     (lower (getHeader s (ESI_HEADER E) ''false'') = ''true'' \<and>
      lookup_codec E enc = Some c \<and>
      substituteESILinks E (RIter [IBytes (encode_ignore c t)]) = Inr y2 \<longrightarrow>
        ESIRender_transformUnicode E s t enc = Inr (Some y2, s)) \<and>
     (lower (getHeader s (ESI_HEADER E) ''false'') = ''true'' \<and>
      py_str E r = Inr str \<and> substituteESILinks E (RText str) = Inr y3 \<longrightarrow>
        ESIRender_transformIterable E s r enc =
          Inr (Some y3, if y3 \<noteq> RText str then setHeader s ''X-Esi'' ''1'' else s))"
proof -
  have p: "ParseXML_transformIterable E s r' enc = Inr (None, s)" for r'
    using assms(1) by (rule ParseXML_disabled)
  have m: "MergePanels_transformIterable E s r enc = Inr (None, s)"
    using assms(2) by (rule MergePanels_not_enabled)
  have i: "IncludeTiles_transformIterable E s r enc = Inr (None, s)"
    using assms(2) by (rule IncludeTiles_not_enabled)
  have e1: "lower (getHeader s (ESI_HEADER E) ''false'') = ''true'' \<and>
      substituteESILinks E (RIter [IBytes b]) = Inr y1 \<longrightarrow>
        ESIRender_transformBytes E s b enc = Inr (Some y1, s)"
    by (simp add: ESIRender_transformBytes_def esi_requested_def)
  have e2: "lower (getHeader s (ESI_HEADER E) ''false'') = ''true'' \<and>
      lookup_codec E enc = Some c \<and>
      substituteESILinks E (RIter [IBytes (encode_ignore c t)]) = Inr y2 \<longrightarrow>
        ESIRender_transformUnicode E s t enc = Inr (Some y2, s)"
    by (simp add: ESIRender_transformUnicode_def esi_requested_def encode_def)
  have e3: "lower (getHeader s (ESI_HEADER E) ''false'') = ''true'' \<and>
      py_str E r = Inr str \<and> substituteESILinks E (RText str) = Inr y3 \<longrightarrow>
        ESIRender_transformIterable E s r enc =
          Inr (Some y3, if y3 \<noteq> RText str then setHeader s ''X-Esi'' ''1'' else s)"
    using ESIRender_transformIterable_requested[of E s r str y3 enc]
    by (simp add: esi_requested_def)
  show ?thesis
    unfolding ParseXML_transformBytes_def ParseXML_transformUnicode_def
      MergePanels_transformBytes_def MergePanels_transformUnicode_def
      IncludeTiles_transformBytes_def IncludeTiles_transformUnicode_def
    using p m i e1 e2 e3 by blast
qed

theorem bypass_skips_composition_only_witness:
  "request_get bypassed ''plone.app.blocks.disabled'' False \<and>
   \<not> request_get bypassed ''plone.app.blocks.enabled'' False \<and>
   lower (getHeader bypassed (ESI_HEADER demo_env) ''false'') = ''true'' \<and>
   substituteESILinks demo_env (RIter [IBytes ''<a rel=esi>'']) = Inr (RBytes ''<esi:include>'') \<and>
   lookup_codec demo_env ''ascii'' = Some ascii_codec \<and>
   substituteESILinks demo_env (RIter [IBytes (encode_ignore ascii_codec [104, 233, 105])]) =
     Inr (RBytes ''hi'') \<and>
   py_str demo_env (RIter [IText [120]]) = Inr [120] \<and>
   substituteESILinks demo_env (RText [120]) = Inr (RText [120]) \<and>
   ParseXML_transformBytes demo_env bypassed ''<a rel=esi>'' ''ascii'' = Inr (None, bypassed) \<and>
   ParseXML_transformIterable demo_env bypassed (RIter [IText [120]]) ''ascii'' =
     Inr (None, bypassed) \<and>
   MergePanels_transformIterable demo_env bypassed (RIter [IText [120]]) ''ascii'' =
     Inr (None, bypassed) \<and>
   IncludeTiles_transformIterable demo_env bypassed (RIter [IText [120]]) ''ascii'' =
     Inr (None, bypassed) \<and>
   ESIRender_transformBytes demo_env bypassed ''<a rel=esi>'' ''ascii'' =
     Inr (Some (RBytes ''<esi:include>''), bypassed) \<and>
   ESIRender_transformUnicode demo_env bypassed [104, 233, 105] ''ascii'' =
     Inr (Some (RBytes ''hi''), bypassed) \<and>
   ESIRender_transformIterable demo_env bypassed (RIter [IText [120]]) ''ascii'' =
     Inr (Some (RText [120]), bypassed)"
proof -
  have d: "request_get bypassed ''plone.app.blocks.disabled'' False"
    by (simp add: bypassed_def fresh_def request_get_def)
  have e: "\<not> request_get bypassed ''plone.app.blocks.enabled'' False"
    by (simp add: bypassed_def fresh_def request_get_def)
  have h: "lower (getHeader bypassed (ESI_HEADER demo_env) ''false'') = ''true''"
    by (simp add: bypassed_def fresh_def demo_env_def getHeader_def lower_TRUE)
  have c: "lookup_codec demo_env ''ascii'' = Some ascii_codec"
    by (simp add: demo_env_def)
  have s2: "substituteESILinks demo_env (RIter [IBytes (encode_ignore ascii_codec [104, 233, 105])]) =
     Inr (RBytes ''hi'')"
    by (simp add: encode_ignore_ascii demo_env_def placeholder_def esi_include_def)
  have p: "py_str demo_env (RIter [IText [120]]) = Inr [120]"
    by (simp add: demo_env_def)
  note T = bypass_skips_composition_only[OF d e, of demo_env "''<a rel=esi>''" "''ascii''"
      "[104, 233, 105]" "RIter [IText [120]]" "RBytes ''<esi:include>''" ascii_codec
      "RBytes ''hi''" "[120]" "RText [120]"]
  show ?thesis
    using T d e h c s2 p demo_substitute_bytes demo_substitute_plain by simp
qed


subsection \<open>Outcome of parsing\<close>

text \<open>
  C3. When the guards of the parse stage let it run and the body of the \<^verbatim>\<open>try\<close> block
  yields a serializer, the stage sets the enabled flag to true and returns that
  serializer; when the body raises one of the exceptions the handler names (a parse
  error of lxml, which is also how lxml reports bytes it cannot decode, a
  \<^verbatim>\<open>TypeError\<close> or an \<^verbatim>\<open>AttributeError\<close>), the stage returns nothing, appends the
  error to the log and leaves the enabled flag as it was.
\<close>

theorem parse_success_and_failure:
  assumes "\<not> request_get s ''plone.app.blocks.disabled'' False"
    and "response_headers s ''Content-Type'' = Some ct"
    and "startswith ct ''text/html''"
    and "response_headers s ''Content-Encoding'' = None \<or>
         (\<exists>v. response_headers s ''Content-Encoding'' = Some v \<and>
              v \<noteq> ''zip'' \<and> v \<noteq> ''deflate'' \<and> v \<noteq> ''compress'')"
  shows
    "(parse_body E r enc = Inr x \<longrightarrow>
        ParseXML_transformIterable E s r enc =
          Inr (Some (RSerializer x), s\<lparr>flags := (flags s)(''plone.app.blocks.enabled'' \<mapsto> True)\<rparr>) \<and>
        request_get (s\<lparr>flags := (flags s)(''plone.app.blocks.enabled'' \<mapsto> True)\<rparr>)
          ''plone.app.blocks.enabled'' False) \<and>
     (parse_body E r enc = Inl e \<and> caught e \<longrightarrow>
        ParseXML_transformIterable E s r enc = Inr (None, s\<lparr>log := log s @ [e]\<rparr>) \<and>
        request_get (s\<lparr>log := log s @ [e]\<rparr>) ''plone.app.blocks.enabled'' False =
          request_get s ''plone.app.blocks.enabled'' False)"
  using ParseXML_runs[OF assms, of E r enc]
  by (simp add: request_set_def logger_error_def request_get_def)

theorem parse_success_and_failure_witness:
  "\<not> request_get fresh ''plone.app.blocks.disabled'' False \<and>
   response_headers fresh ''Content-Type'' = Some ''text/html; charset=utf-8'' \<and>
   startswith ''text/html; charset=utf-8'' ''text/html'' \<and>
   response_headers fresh ''Content-Encoding'' = None \<and>
   parse_body demo_env (RIter [IBytes ''<p>hi</p>'']) ''utf-8'' =
     Inr \<lparr>tree = \<lparr>doctype = [], root = Chars ''<p>hi</p>''\<rparr>,
          serializer = etree_tostring, pretty_print = False\<rparr> \<and>
   ParseXML_transformIterable demo_env fresh (RIter [IBytes ''<p>hi</p>'']) ''utf-8'' =
     Inr (Some (RSerializer \<lparr>tree = \<lparr>doctype = [], root = Chars ''<p>hi</p>''\<rparr>,
                             serializer = etree_tostring, pretty_print = False\<rparr>),
          fresh\<lparr>flags := (flags fresh)(''plone.app.blocks.enabled'' \<mapsto> True)\<rparr>) \<and>
   request_get (fresh\<lparr>flags := (flags fresh)(''plone.app.blocks.enabled'' \<mapsto> True)\<rparr>)
     ''plone.app.blocks.enabled'' False \<and>
   parse_body demo_env (RIter [IInt 7]) ''utf-8'' = Inl TypeError \<and>
   caught TypeError \<and>
   ParseXML_transformIterable demo_env fresh (RIter [IInt 7]) ''utf-8'' =
     Inr (None, fresh\<lparr>log := log fresh @ [TypeError]\<rparr>) \<and>
   \<not> request_get (fresh\<lparr>log := log fresh @ [TypeError]\<rparr>) ''plone.app.blocks.enabled'' False \<and>
   parse_body demo_env (RIter [IBytes []]) ''utf-8'' = Inl ParseError \<and>
   caught ParseError \<and>
   ParseXML_transformIterable demo_env fresh (RIter [IBytes []]) ''utf-8'' =
     Inr (None, fresh\<lparr>log := log fresh @ [ParseError]\<rparr>)"
proof -
  have g1: "\<not> request_get fresh ''plone.app.blocks.disabled'' False"
    by (simp add: fresh_def request_get_def)
  have g2: "response_headers fresh ''Content-Type'' = Some ''text/html; charset=utf-8''"
    by (simp add: fresh_def)
  have g3: "startswith ''text/html; charset=utf-8'' ''text/html''"
    by simp
  have g4: "response_headers fresh ''Content-Encoding'' = None"
    by (simp add: fresh_def)
  have g4': "response_headers fresh ''Content-Encoding'' = None \<or>
         (\<exists>v. response_headers fresh ''Content-Encoding'' = Some v \<and>
              v \<noteq> ''zip'' \<and> v \<noteq> ''deflate'' \<and> v \<noteq> ''compress'')"
    using g4 by simp
  have en: "\<not> request_get fresh ''plone.app.blocks.enabled'' False"
    by (simp add: fresh_def request_get_def)
  note T = parse_success_and_failure[OF g1 g2 g3 g4', of demo_env]
  show ?thesis
    using T[of "RIter [IBytes ''<p>hi</p>'']" "''utf-8''" _ TypeError]
      T[of "RIter [IInt 7]" "''utf-8''" _ TypeError]
      T[of "RIter [IBytes []]" "''utf-8''" _ ParseError]
      g1 g2 g3 g4 en parse_body_paragraph parse_body_number parse_body_empty
    by simp
qed


subsection \<open>The edge-directive stage on an iterable\<close>

text \<open>
  C4. \<^verbatim>\<open>ESIRender.transformIterable\<close>: when the edge header is absent, or present
  with a value that is not "true" after lowering, the stage returns nothing and the
  request, hence the response header \<^verbatim>\<open>X-Esi\<close>, is untouched; when it is "true", the
  stage returns the substitution of the stringified input, and the request after the
  call has \<^verbatim>\<open>X-Esi\<close> set to "1" exactly when that output differs from the stringified
  input.
\<close>

theorem edge_stage_iterable:
  "(headers s (ESI_HEADER E) = None \<longrightarrow>
      ESIRender_transformIterable E s r enc = Inr (None, s)) \<and>
   (headers s (ESI_HEADER E) = Some h \<and> lower h \<noteq> ''true'' \<longrightarrow>
      ESIRender_transformIterable E s r enc = Inr (None, s)) \<and>
   (headers s (ESI_HEADER E) = Some h \<and> lower h = ''true'' \<and>
    py_str E r = Inr str \<and> substituteESILinks E (RText str) = Inr y \<longrightarrow>
      ESIRender_transformIterable E s r enc =
        Inr (Some y,
             if y \<noteq> RText str
             then s\<lparr>response_headers := (response_headers s)(''X-Esi'' \<mapsto> ''1'')\<rparr>
             else s))"
proof -
  have "lower ''false'' \<noteq> ''true''"
    by (simp add: lower_def lower_char_def)
  then have a: "headers s (ESI_HEADER E) = None \<Longrightarrow> \<not> esi_requested E s"
    by (simp add: esi_requested_def getHeader_def)
  have b: "headers s (ESI_HEADER E) = Some h \<Longrightarrow> esi_requested E s = (lower h = ''true'')"
    by (simp add: esi_requested_def getHeader_def)
  show ?thesis
    using a b ESIRender_transformIterable_requested[of E s r str y enc]
    by (auto simp: ESIRender_transformIterable_def setHeader_def)
qed

theorem edge_stage_iterable_witness:
  "headers fresh (ESI_HEADER demo_env) = None \<and>
   ESIRender_transformIterable demo_env fresh (RText [120]) ''utf-8'' = Inr (None, fresh) \<and>
   headers (fresh\<lparr>headers := [''X-ESI-Enabled'' \<mapsto> ''yes'']\<rparr>) (ESI_HEADER demo_env) =
     Some ''yes'' \<and>
   lower ''yes'' \<noteq> ''true'' \<and>
   ESIRender_transformIterable demo_env (fresh\<lparr>headers := [''X-ESI-Enabled'' \<mapsto> ''yes'']\<rparr>)
     (RText [120]) ''utf-8'' =
     Inr (None, fresh\<lparr>headers := [''X-ESI-Enabled'' \<mapsto> ''yes'']\<rparr>) \<and>
   headers enabled_edge (ESI_HEADER demo_env) = Some ''True'' \<and>
   lower ''True'' = ''true'' \<and>
   py_str demo_env (RText [60, 97, 32, 114, 101, 108, 61, 101, 115, 105, 62]) =
     Inr [60, 97, 32, 114, 101, 108, 61, 101, 115, 105, 62] \<and>
   substituteESILinks demo_env (RText [60, 97, 32, 114, 101, 108, 61, 101, 115, 105, 62]) =
     Inr (RText [60, 101, 115, 105, 58, 105, 110, 99, 108, 117, 100, 101, 62]) \<and>
   ESIRender_transformIterable demo_env enabled_edge
     (RText [60, 97, 32, 114, 101, 108, 61, 101, 115, 105, 62]) ''utf-8'' =
     Inr (Some (RText [60, 101, 115, 105, 58, 105, 110, 99, 108, 117, 100, 101, 62]),
          enabled_edge\<lparr>response_headers :=
            (response_headers enabled_edge)(''X-Esi'' \<mapsto> ''1'')\<rparr>) \<and>
   py_str demo_env (RText [120]) = Inr [120] \<and>
   substituteESILinks demo_env (RText [120]) = Inr (RText [120]) \<and>
   ESIRender_transformIterable demo_env enabled_edge (RText [120]) ''utf-8'' =
     Inr (Some (RText [120]), enabled_edge)"
proof -
  have a: "headers fresh (ESI_HEADER demo_env) = None"
    by (simp add: fresh_def)
  have b: "headers (fresh\<lparr>headers := [''X-ESI-Enabled'' \<mapsto> ''yes'']\<rparr>) (ESI_HEADER demo_env) =
     Some ''yes''"
    by (simp add: demo_env_def)
  have b': "lower ''yes'' \<noteq> ''true''"
    by (simp add: lower_def lower_char_def)
  have c: "headers enabled_edge (ESI_HEADER demo_env) = Some ''True''"
    by (simp add: enabled_edge_def demo_env_def)
  have p1: "py_str demo_env (RText t) = Inr t" for t
    by (simp add: demo_env_def)
  show ?thesis
    using edge_stage_iterable[where s = fresh and E = demo_env and r = "RText [120]"
        and enc = "''utf-8''"]
      edge_stage_iterable[where s = "fresh\<lparr>headers := [''X-ESI-Enabled'' \<mapsto> ''yes'']\<rparr>"
        and E = demo_env and h = "''yes''" and r = "RText [120]" and enc = "''utf-8''"]
      edge_stage_iterable[where s = enabled_edge and E = demo_env and h = "''True''"
        and r = "RText [60, 97, 32, 114, 101, 108, 61, 101, 115, 105, 62]"
        and enc = "''utf-8''" and str = "[60, 97, 32, 114, 101, 108, 61, 101, 115, 105, 62]"
        and y = "RText [60, 101, 115, 105, 58, 105, 110, 99, 108, 117, 100, 101, 62]"]
      edge_stage_iterable[where s = enabled_edge and E = demo_env and h = "''True''"
        and r = "RText [120]" and enc = "''utf-8''" and str = "[120]" and y = "RText [120]"]
      a b b' c p1 lower_True demo_substitute_text demo_substitute_plain
    by simp
qed


subsection \<open>Raw character data sections\<close>

text \<open>
  C6. Whenever the parse stage returns a result and one of the chunks it accepted, as
  normalized, contains the marker \<^verbatim>\<open><![CDATA[\<close>, the result is a serializer whose
  strategy is \<^verbatim>\<open>html.tostring\<close>.
\<close>

theorem cdata_forces_html_serializer:
  assumes "ParseXML_transformIterable E s r enc = Inr (Some out, s')"
    and "py_iter E r = Inr items"
    and "normalize_items items = Inr chunks"
    and "list_ex (\<lambda>item. contains item CDATA) chunks"
  shows "\<exists>x. out = RSerializer x \<and> serializer x = html_tostring"
  using assms
  by (auto simp: ParseXML_transformIterable_def parse_body_def Let_def
      split: if_splits option.splits sum.splits)

theorem cdata_forces_html_serializer_witness:
  "ParseXML_transformIterable demo_env fresh (RIter [IBytes [], IBytes ''<![CDATA[x]]>'']) ''utf-8'' =
     Inr (Some (RSerializer \<lparr>tree = \<lparr>doctype = [], root = Chars ''<![CDATA[x]]>''\<rparr>,
                             serializer = html_tostring, pretty_print = False\<rparr>),
          request_set fresh ''plone.app.blocks.enabled'' True) \<and>
   py_iter demo_env (RIter [IBytes [], IBytes ''<![CDATA[x]]>'']) =
     Inr [IBytes [], IBytes ''<![CDATA[x]]>''] \<and>
   normalize_items [IBytes [], IBytes ''<![CDATA[x]]>''] = Inr [''<![CDATA[x]]>''] \<and>
   list_ex (\<lambda>item. contains item CDATA) [''<![CDATA[x]]>''] \<and>
   (\<exists>x. RSerializer \<lparr>tree = \<lparr>doctype = [], root = Chars ''<![CDATA[x]]>''\<rparr>,
                      serializer = html_tostring, pretty_print = False\<rparr> = RSerializer x \<and>
        serializer x = html_tostring)"
proof -
  have i: "py_iter demo_env (RIter [IBytes [], IBytes ''<![CDATA[x]]>'']) =
     Inr [IBytes [], IBytes ''<![CDATA[x]]>'']"
    by simp
  have n: "normalize_items [IBytes [], IBytes ''<![CDATA[x]]>''] = Inr [''<![CDATA[x]]>'']"
    by (simp add: normalize_item_def CR_def LF_def)
  have c: "list_ex (\<lambda>item. contains item CDATA) [''<![CDATA[x]]>'']"
    by (simp add: CDATA_def)
  from cdata_forces_html_serializer[OF ParseXML_cdata i n c] ParseXML_cdata i n c
  show ?thesis by blast
qed


subsection \<open>Responses that are not HTML\<close>

text \<open>
  C7, as amended. When the response has no \<^verbatim>\<open>Content-Type\<close> header or one that does
  not start with \<^verbatim>\<open>text/html\<close>, every entry point of the parse stage returns nothing
  and leaves the request as it is; and on a request whose enabled flag is not set and
  whose edge header is not "true", the chain hands back its input unchanged.
\<close>

theorem non_html_passes_through_without_edge_header:
  assumes "response_headers s ''Content-Type'' = None \<or>
           (\<exists>ct. response_headers s ''Content-Type'' = Some ct \<and>
                 \<not> startswith ct ''text/html'')"
  shows
    "ParseXML_transformBytes E s b enc = Inr (None, s) \<and>
     ParseXML_transformUnicode E s t enc = Inr (None, s) \<and>
     ParseXML_transformIterable E s r enc = Inr (None, s) \<and>
     (\<not> request_get s ''plone.app.blocks.enabled'' False \<and>
      lower (getHeader s (ESI_HEADER E) ''false'') \<noteq> ''true'' \<longrightarrow>
        chain E (pipeline bypass) s r enc =
          Inr (r, if bypass
                  then s\<lparr>flags := (flags s)(''plone.app.blocks.disabled'' \<mapsto> True)\<rparr>
                  else s))"
  using ParseXML_not_html[OF assms]
    chain_passes_through[of E s enc bypass r, OF ParseXML_not_html[OF assms]]
  by (simp add: ParseXML_transformBytes_def ParseXML_transformUnicode_def
      esi_requested_def request_set_def)

theorem non_html_passes_through_without_edge_header_witness:
  "response_headers json_response ''Content-Type'' = Some ''application/json'' \<and>
   \<not> startswith ''application/json'' ''text/html'' \<and>
   \<not> request_get json_response ''plone.app.blocks.enabled'' False \<and>
   lower (getHeader json_response (ESI_HEADER demo_env) ''false'') \<noteq> ''true'' \<and>
   ParseXML_transformBytes demo_env json_response ''<a rel=esi>'' ''utf-8'' =
     Inr (None, json_response) \<and>
   ParseXML_transformUnicode demo_env json_response [120] ''utf-8'' =
     Inr (None, json_response) \<and>
   ParseXML_transformIterable demo_env json_response (RBytes ''<a rel=esi>'') ''utf-8'' =
     Inr (None, json_response) \<and>
   chain demo_env (pipeline False) json_response (RBytes ''<a rel=esi>'') ''utf-8'' =
     Inr (RBytes ''<a rel=esi>'', json_response)"
proof -
  have ct: "response_headers json_response ''Content-Type'' = Some ''application/json''"
    by (simp add: json_response_def)
  have ns: "\<not> startswith ''application/json'' ''text/html''"
    by simp
  have en: "\<not> request_get json_response ''plone.app.blocks.enabled'' False"
    by (simp add: json_response_def request_get_def)
  have h: "lower (getHeader json_response (ESI_HEADER demo_env) ''false'') \<noteq> ''true''"
    by (rule not_requested_without_header) (simp add: json_response_def)
  have g: "response_headers json_response ''Content-Type'' = None \<or>
           (\<exists>ct. response_headers json_response ''Content-Type'' = Some ct \<and>
                 \<not> startswith ct ''text/html'')"
    using ct ns by simp
  from non_html_passes_through_without_edge_header[OF g, of demo_env "''<a rel=esi>''"
      "''utf-8''" "[120]" "RBytes ''<a rel=esi>''" False] ct ns en h
  show ?thesis by simp
qed


text \<open>
  The claim as first stated fails when the edge header is "true": the parse stage
  returns nothing for a response of type \<^verbatim>\<open>application/xhtml+xml\<close>, but the
  edge-directive stage still rewrites the body, so the chain's output differs from its
  input.
\<close>

theorem non_html_changed_by_edge_stage:
  "response_headers xhtml_edge ''Content-Type'' = Some ''application/xhtml+xml'' \<and>
   \<not> startswith ''application/xhtml+xml'' ''text/html'' \<and>
   ParseXML_transformBytes demo_env xhtml_edge ''<a rel=esi>'' ''utf-8'' =
     Inr (None, xhtml_edge) \<and>
   chain demo_env (pipeline False) xhtml_edge (RBytes ''<a rel=esi>'') ''utf-8'' =
     Inr (RBytes ''<esi:include>'', xhtml_edge) \<and>
   RBytes ''<esi:include>'' \<noteq> RBytes ''<a rel=esi>'' \<and>
   chain demo_env (pipeline False) xhtml_edge
     (RIter [IText [60, 97, 32, 114, 101, 108, 61, 101, 115, 105, 62]]) ''utf-8'' =
     Inr (RText [60, 101, 115, 105, 58, 105, 110, 99, 108, 117, 100, 101, 62],
          setHeader xhtml_edge ''X-Esi'' ''1'') \<and>
   RText [60, 101, 115, 105, 58, 105, 110, 99, 108, 117, 100, 101, 62] \<noteq>
     RIter [IText [60, 97, 32, 114, 101, 108, 61, 101, 115, 105, 62]]"
proof -
  have ct: "response_headers xhtml_edge ''Content-Type'' = Some ''application/xhtml+xml''"
    by (simp add: xhtml_edge_def)
  have ns: "\<not> startswith ''application/xhtml+xml'' ''text/html''"
    by simp
  have p: "ParseXML_transformIterable demo_env xhtml_edge r ''utf-8'' = Inr (None, xhtml_edge)"
    for r
    by (rule ParseXML_not_html) (simp add: ct)
  have en: "\<not> request_get xhtml_edge ''plone.app.blocks.enabled'' False"
    by (simp add: request_get_def xhtml_edge_def)
  have h: "esi_requested demo_env xhtml_edge"
    by (simp add: esi_requested_def demo_env_def xhtml_edge_def getHeader_def lower_def
        lower_char_def)
  from chain_edge_only[OF p en h] chain_edge_only_iterable[OF p en h] p ct ns show ?thesis
    by (simp add: ParseXML_transformBytes_def)
qed


subsection \<open>No layout\<close>

text \<open>
  C8. When \<^verbatim>\<open>panel.merge\<close> returns \<^verbatim>\<open>None\<close>, the panel-merge stage returns nothing:
  no updated serializer is produced, so tree and strategy stay as they were, and the
  request after the call is the request before it, so the merged flag is not set.
\<close>

theorem merge_sentinel_is_noop:
  assumes "panel_merge E s (tree x) = Inr None"
  shows "MergePanels_transformIterable E s (RSerializer x) enc = Inr (None, s)"
  using assms by simp

theorem merge_sentinel_is_noop_witness:
  "request_get enabled_edge ''plone.app.blocks.enabled'' False \<and>
   panel_merge demo_env enabled_edge
     (tree \<lparr>tree = \<lparr>doctype = [], root = Chars ''<p>hi</p>''\<rparr>,
            serializer = etree_tostring, pretty_print = False\<rparr>) = Inr None \<and>
   MergePanels_transformIterable demo_env enabled_edge
     (RSerializer \<lparr>tree = \<lparr>doctype = [], root = Chars ''<p>hi</p>''\<rparr>,
                   serializer = etree_tostring, pretty_print = False\<rparr>) ''utf-8'' =
     Inr (None, enabled_edge)"
proof -
  have m: "panel_merge demo_env enabled_edge
     (tree \<lparr>tree = \<lparr>doctype = [], root = Chars ''<p>hi</p>''\<rparr>,
            serializer = etree_tostring, pretty_print = False\<rparr>) = Inr None"
    by (simp add: demo_env_def demo_merge_def)
  have e: "request_get enabled_edge ''plone.app.blocks.enabled'' False"
    by (simp add: enabled_edge_def fresh_def request_get_def)
  from merge_sentinel_is_noop[OF m, of "''utf-8''"] m e show ?thesis by blast
qed


subsection \<open>Flags are only ever set to true\<close>

lemma flags_monotone_refl: "flags_monotone s s"
  by (simp add: flags_monotone_def)

lemma flags_monotone_trans:
  "flags_monotone s s' \<Longrightarrow> flags_monotone s' s'' \<Longrightarrow> flags_monotone s s''"
  unfolding flags_monotone_def by metis

lemma flags_monotone_set: "flags_monotone s (request_set s k True)"
  by (simp add: flags_monotone_def request_set_def)

lemma ParseXML_monotone:
  "ParseXML_transformIterable E s r enc = Inr (out, s') \<Longrightarrow> flags_monotone s s'"
  by (auto simp: ParseXML_transformIterable_def Let_def flags_monotone_def
      request_set_def logger_error_def split: if_splits option.splits sum.splits)

lemma MergePanels_monotone:
  "MergePanels_transformIterable E s r enc = Inr (out, s') \<Longrightarrow> flags_monotone s s'"
  by (cases r)
     (auto simp: Let_def flags_monotone_def request_set_def
       split: if_splits option.splits sum.splits)

lemma IncludeTiles_monotone:
  "IncludeTiles_transformIterable E s r enc = Inr (out, s') \<Longrightarrow> flags_monotone s s'"
  by (cases r)
     (auto simp: flags_monotone_def split: if_splits option.splits sum.splits)

lemma ESIRender_monotone:
  "ESIRender_transformIterable E s r enc = Inr (out, s') \<Longrightarrow> flags_monotone s s'"
  by (auto simp: ESIRender_transformIterable_def Let_def flags_monotone_def setHeader_def
      split: if_splits option.splits sum.splits)

lemma transformIterable_monotone:
  "transformIterable g E s r enc = Inr (out, s') \<Longrightarrow> flags_monotone s s'"
  by (cases g)
     (auto simp: DisableParsing_transformIterable_def flags_monotone_set
       dest: ParseXML_monotone MergePanels_monotone IncludeTiles_monotone ESIRender_monotone)

lemma transformBytes_monotone:
  "transformBytes g E s b enc = Inr (out, s') \<Longrightarrow> flags_monotone s s'"
  by (cases g)
     (auto simp: DisableParsing_transformBytes_def ParseXML_transformBytes_def
       MergePanels_transformBytes_def IncludeTiles_transformBytes_def
       ESIRender_transformBytes_def flags_monotone_set flags_monotone_refl
       split: if_splits sum.splits dest: ParseXML_monotone)

lemma transformUnicode_monotone:
  "transformUnicode g E s t enc = Inr (out, s') \<Longrightarrow> flags_monotone s s'"
  by (cases g)
     (auto simp: DisableParsing_transformUnicode_def ParseXML_transformUnicode_def
       MergePanels_transformUnicode_def IncludeTiles_transformUnicode_def
       ESIRender_transformUnicode_def flags_monotone_set flags_monotone_refl
       split: if_splits sum.splits dest: ParseXML_monotone)

lemma run_stage_monotone:
  "run_stage E g s r enc = Inr (out, s') \<Longrightarrow> flags_monotone s s'"
  by (cases r)
     (auto dest: transformBytes_monotone transformUnicode_monotone transformIterable_monotone)

lemma chain_monotone:
  "chain E gs s r enc = Inr (r', s') \<Longrightarrow> flags_monotone s s'"
proof (induction gs arbitrary: s r)
  case Nil
  then show ?case by (simp add: flags_monotone_refl)
next
  case (Cons g gs)
  from Cons.prems obtain out s1 where
    step: "run_stage E g s r enc = Inr (out, s1)" and
    rest: "chain E gs s1 (case out of None \<Rightarrow> r | Some v \<Rightarrow> v) enc = Inr (r', s')"
    by (auto split: sum.splits option.splits)
  from run_stage_monotone[OF step] Cons.IH[OF rest] show ?case
    by (rule flags_monotone_trans)
qed

text \<open>
  C9. Whatever stage is called through whatever entry point, and whatever list of stages
  the chain runs, every key of the request's mapping keeps its value or holds true
  after a call that returns; in particular a flag that is true before the chain is true
  after it.
\<close>

theorem flags_only_ever_set_true:
  "(transformBytes g E s b enc = Inr (o1, s1) \<longrightarrow> flags_monotone s s1) \<and>
   (transformUnicode g E s t enc = Inr (o2, s2) \<longrightarrow> flags_monotone s s2) \<and>
   (transformIterable g E s r enc = Inr (o3, s3) \<longrightarrow> flags_monotone s s3) \<and>
   (chain E gs s r enc = Inr (r', s') \<longrightarrow> flags_monotone s s') \<and>
   (chain E gs s r enc = Inr (r', s') \<and> flags s k = Some True \<longrightarrow> flags s' k = Some True)"
proof (intro conjI impI)
  assume "transformBytes g E s b enc = Inr (o1, s1)"
  then show "flags_monotone s s1" by (rule transformBytes_monotone)
next
  assume "transformUnicode g E s t enc = Inr (o2, s2)"
  then show "flags_monotone s s2" by (rule transformUnicode_monotone)
next
  assume "transformIterable g E s r enc = Inr (o3, s3)"
  then show "flags_monotone s s3" by (rule transformIterable_monotone)
next
  assume "chain E gs s r enc = Inr (r', s')"
  then show "flags_monotone s s'" by (rule chain_monotone)
next
  assume a: "chain E gs s r enc = Inr (r', s') \<and> flags s k = Some True"
  then have "flags_monotone s s'" by (blast intro: chain_monotone)
  with a show "flags s' k = Some True"
    unfolding flags_monotone_def by metis
qed

theorem flags_only_ever_set_true_witness:
  "transformBytes DisableParsing demo_env fresh ''<p>'' ''utf-8'' =
     Inr (None, request_set fresh ''plone.app.blocks.disabled'' True) \<and>
   flags_monotone fresh (request_set fresh ''plone.app.blocks.disabled'' True) \<and>
   transformUnicode MergePanels demo_env composed [120] ''utf-8'' = Inr (None, composed) \<and>
   flags_monotone composed composed \<and>
   transformIterable ParseXML demo_env bypassed (RIter []) ''utf-8'' = Inr (None, bypassed) \<and>
   flags_monotone bypassed bypassed \<and>
   chain demo_env (pipeline False) fresh (RBytes ''layout'') ''utf-8'' =
     Inr (RSerializer
            \<lparr>tree = \<lparr>doctype = ''<!DOCTYPE html>'',
                     root = Element ''html'' [] [Chars ''layout'']\<rparr>,
             serializer = html_tostring, pretty_print = False\<rparr>,
          composed) \<and>
   flags_monotone fresh composed \<and>
   flags fresh ''plone.app.blocks.merged'' = None \<and>
   flags composed ''plone.app.blocks.merged'' = Some True \<and>
   chain demo_env (pipeline False) bypassed (RBytes ''<p>'') ''ascii'' =
     Inr (RBytes ''<p>'', bypassed) \<and>
   flags bypassed ''plone.app.blocks.disabled'' = Some True"
proof -
  have a: "transformBytes DisableParsing demo_env fresh ''<p>'' ''utf-8'' =
     Inr (None, request_set fresh ''plone.app.blocks.disabled'' True)"
    by (simp add: DisableParsing_transformBytes_def)
  have b: "transformUnicode MergePanels demo_env composed [120] ''utf-8'' = Inr (None, composed)"
    by (simp add: MergePanels_transformUnicode_def)
  have c: "transformIterable ParseXML demo_env bypassed (RIter []) ''utf-8'' = Inr (None, bypassed)"
    by (simp add: ParseXML_transformIterable_def bypassed_def fresh_def request_get_def)
  have f: "flags fresh ''plone.app.blocks.merged'' = None"
    "flags composed ''plone.app.blocks.merged'' = Some True"
    "flags bypassed ''plone.app.blocks.disabled'' = Some True"
    by (simp_all add: fresh_def composed_def bypassed_def)
  have m1: "flags_monotone fresh (request_set fresh ''plone.app.blocks.disabled'' True)"
    using flags_only_ever_set_true[where g = DisableParsing and E = demo_env and s = fresh
        and b = "''<p>''" and enc = "''utf-8''" and ?o1.0 = None
        and ?s1.0 = "request_set fresh ''plone.app.blocks.disabled'' True"] a
    by blast
  have m2: "flags_monotone composed composed"
    using flags_only_ever_set_true[where g = MergePanels and E = demo_env and s = composed
        and t = "[120]" and enc = "''utf-8''" and ?o2.0 = None and ?s2.0 = composed] b
    by blast
  have m3: "flags_monotone bypassed bypassed"
    using flags_only_ever_set_true[where g = ParseXML and E = demo_env and s = bypassed
        and r = "RIter []" and enc = "''utf-8''" and ?o3.0 = None and ?s3.0 = bypassed] c
    by blast
  have m4: "flags_monotone fresh composed"
    using flags_only_ever_set_true[where E = demo_env and s = fresh and gs = "pipeline False"
        and r = "RBytes ''layout''" and enc = "''utf-8''" and s' = composed] chain_layout
    by blast
  show ?thesis
    using a b c f m1 m2 m3 m4 chain_layout chain_bypassed by blast
qed


subsection \<open>The edge-directive stage on text\<close>

lemma encode_ignore_filter:
  "encode_strict c (filter (\<lambda>x. c x \<noteq> None) t) = Inr (encode_ignore c t)"
proof -
  have "concat (map (\<lambda>x. the (c x)) (filter (\<lambda>x. c x \<noteq> None) t)) = encode_ignore c t"
    by (induction t) (auto simp: encode_ignore_def)
  moreover have "\<not> list_ex (\<lambda>x. c x = None) (filter (\<lambda>x. c x \<noteq> None) t)"
    by (auto simp: list_ex_iff)
  ultimately show ?thesis
    unfolding encode_strict_def by simp
qed

text \<open>
  C10. \<^verbatim>\<open>ESIRender.transformUnicode\<close> with the edge header "true" and a known
  encoding: the text is encoded with error mode "ignore", which cannot fail and yields
  what the strict encoder yields on the text without the code points the encoding
  cannot represent; the bytes go to the substitution in a one-element list; and a call
  that returns leaves the request, hence the response headers, untouched.
\<close>

theorem edge_stage_unicode_ignores_unencodable:
  assumes "lower (getHeader s (ESI_HEADER E) ''false'') = ''true''"
    and "lookup_codec E enc = Some c"
  shows
    "ESIRender_transformUnicode E s t enc =
       (case substituteESILinks E (RIter [IBytes (encode_ignore c t)]) of
          Inl e \<Rightarrow> Inl e
        | Inr y \<Rightarrow> Inr (Some y, s)) \<and>
     encode E t enc ''ignore'' = Inr (encode_ignore c t) \<and>
     encode_strict c (filter (\<lambda>x. c x \<noteq> None) t) = Inr (encode_ignore c t) \<and>
     (ESIRender_transformUnicode E s t enc = Inr (out, s') \<longrightarrow> s' = s)"
proof -
  have enc: "encode E t enc ''ignore'' = Inr (encode_ignore c t)"
    using assms(2) by (simp add: encode_def)
  have run: "ESIRender_transformUnicode E s t enc =
       (case substituteESILinks E (RIter [IBytes (encode_ignore c t)]) of
          Inl e \<Rightarrow> Inl e
        | Inr y \<Rightarrow> Inr (Some y, s))"
    using assms(1) enc by (simp add: ESIRender_transformUnicode_def esi_requested_def)
  have "ESIRender_transformUnicode E s t enc = Inr (out, s') \<longrightarrow> s' = s"
    unfolding run by (simp split: sum.splits)
  with enc run encode_ignore_filter[of c t] show ?thesis
    by blast
qed

theorem edge_stage_unicode_ignores_unencodable_witness:
  "lower (getHeader bypassed (ESI_HEADER demo_env) ''false'') = ''true'' \<and>
   lookup_codec demo_env ''ascii'' = Some ascii_codec \<and>
   ascii_codec 233 = None \<and>
   encode_strict ascii_codec [104, 233, 105] = Inl UnicodeEncodeError \<and>
   encode_ignore ascii_codec [104, 233, 105] = ''hi'' \<and>
   encode demo_env [104, 233, 105] ''ascii'' ''ignore'' = Inr ''hi'' \<and>
   encode_strict ascii_codec (filter (\<lambda>x. ascii_codec x \<noteq> None) [104, 233, 105]) = Inr ''hi'' \<and>
   ESIRender_transformUnicode demo_env bypassed [104, 233, 105] ''ascii'' =
     Inr (Some (RBytes ''hi''), bypassed)"
proof -
  have h: "lower (getHeader bypassed (ESI_HEADER demo_env) ''false'') = ''true''"
    by (simp add: bypassed_def fresh_def demo_env_def getHeader_def lower_TRUE)
  have c: "lookup_codec demo_env ''ascii'' = Some ascii_codec"
    by (simp add: demo_env_def)
  have u: "ascii_codec 233 = None"
    by (simp add: ascii_codec_def)
  have st: "encode_strict ascii_codec [104, 233, 105] = Inl UnicodeEncodeError"
    by (simp add: encode_strict_def ascii_codec_def)
  have s2: "substituteESILinks demo_env (RIter [IBytes ''hi'']) = Inr (RBytes ''hi'')"
    by (simp add: demo_env_def placeholder_def esi_include_def)
  from edge_stage_unicode_ignores_unencodable[OF h c, of "[104, 233, 105]"]
    h c u st s2 encode_ignore_ascii
  show ?thesis by simp
qed


end
